theory Spec2Isabelle
  imports Complex_Main
begin

section \<open>JavaScript values\<close>

text \<open>
  The route handlers read arbitrary values out of \<^verbatim>\<open>req.body\<close>, test them with
  \<^verbatim>\<open>typeof\<close>, \<^verbatim>\<open>!x\<close>, \<^verbatim>\<open><\<close> and \<^verbatim>\<open>===\<close>, and store them.  Numbers are modelled
  as exact rationals extended with the three special values of a double; rounding and
  the sign of zero are not modelled.
\<close>

datatype js_number = Finite rat | PosInfinity | NegInfinity | NaN

datatype js_value =
    JUndefined
  | JNull
  | JBoolean bool
  | JNumber js_number
  | JString string
  | JArray "js_value list"
  | JObject "(string \<times> js_value) list"

fun typeof :: "js_value \<Rightarrow> string" where
  "typeof JUndefined = ''undefined''"
| "typeof JNull = ''object''"
| "typeof (JBoolean b) = ''boolean''"
| "typeof (JNumber n) = ''number''"
| "typeof (JString s) = ''string''"
| "typeof (JArray xs) = ''object''"
| "typeof (JObject kvs) = ''object''"

text \<open>\<^verbatim>\<open>ToBoolean\<close>: what \<^verbatim>\<open>!x\<close>, \<^verbatim>\<open>x || y\<close> and \<^verbatim>\<open>x && y\<close> test.\<close>

fun truthy :: "js_value \<Rightarrow> bool" where
  "truthy JUndefined = False"
| "truthy JNull = False"
| "truthy (JBoolean b) = b"
| "truthy (JNumber (Finite q)) = (q \<noteq> 0)"
| "truthy (JNumber NaN) = False"
| "truthy (JNumber PosInfinity) = True"
| "truthy (JNumber NegInfinity) = True"
| "truthy (JString s) = (s \<noteq> [])"
| "truthy (JArray xs) = True"
| "truthy (JObject kvs) = True"

text \<open>\<^verbatim>\<open>a < b\<close> on two numbers: every comparison with \<^verbatim>\<open>NaN\<close> is false.\<close>

fun js_lt :: "js_number \<Rightarrow> js_number \<Rightarrow> bool" where
  "js_lt (Finite a) (Finite b) = (a < b)"
| "js_lt (Finite a) PosInfinity = True"
| "js_lt NegInfinity (Finite b) = True"
| "js_lt NegInfinity PosInfinity = True"
| "js_lt a b = False"

definition js_gt :: "js_number \<Rightarrow> js_number \<Rightarrow> bool" where
  "js_gt a b = js_lt b a"

text \<open>\<^verbatim>\<open>a + b\<close> and \<^verbatim>\<open>a / b\<close> on two numbers.\<close>

fun js_add :: "js_number \<Rightarrow> js_number \<Rightarrow> js_number" where
  "js_add (Finite a) (Finite b) = Finite (a + b)"
| "js_add NaN b = NaN"
| "js_add a NaN = NaN"
| "js_add PosInfinity NegInfinity = NaN"
| "js_add NegInfinity PosInfinity = NaN"
| "js_add PosInfinity b = PosInfinity"
| "js_add NegInfinity b = NegInfinity"
| "js_add a PosInfinity = PosInfinity"
| "js_add a NegInfinity = NegInfinity"

fun js_div :: "js_number \<Rightarrow> js_number \<Rightarrow> js_number" where
  "js_div (Finite a) (Finite b) =
     (if b = 0 then (if a = 0 then NaN else if 0 < a then PosInfinity else NegInfinity)
      else Finite (a / b))"
| "js_div NaN b = NaN"
| "js_div a NaN = NaN"
| "js_div (Finite a) PosInfinity = Finite 0"
| "js_div (Finite a) NegInfinity = Finite 0"
| "js_div PosInfinity (Finite b) = (if 0 \<le> b then PosInfinity else NegInfinity)"
| "js_div NegInfinity (Finite b) = (if 0 \<le> b then NegInfinity else PosInfinity)"
| "js_div a b = NaN"

section \<open>Documents and the database\<close>

text \<open>
  An embedded product review.  \<^verbatim>\<open>rev?.user?.toString()\<close> is read through
  \<open>rv_user\<close>: \<open>None\<close> when the review carries no user.
\<close>

record review =
  rv_user :: "string option"
  rv_rating :: js_number
  rv_comment :: js_value
  rv_productId :: js_value
  rv_createdAt :: nat

text \<open>A media descriptor \<^verbatim>\<open>{ public_id, url }\<close>; the event schema leaves \<^verbatim>\<open>public_id\<close> optional.\<close>

record media =
  public_id :: js_value
  url :: js_value

record product =
  p_images :: "media list"
  p_videos :: "media list"
  p_reviews :: "review list"
  p_ratings :: js_value
  p_fields :: "(string \<times> js_value) list"

text \<open>
  A cart line of an order.  \<open>ci_productId\<close> holds \<^verbatim>\<open>item.productId.toString()\<close>,
  \<open>None\<close> when the line has no \<^verbatim>\<open>productId\<close>; a cart entry may itself be \<^verbatim>\<open>null\<close>.
\<close>

record cart_item =
  ci_productId :: "string option"
  ci_isReviewed :: bool

record order =
  o_cart :: "cart_item option list"

record public_review =
  pr_name :: js_value
  pr_rating :: js_value
  pr_comment :: js_value
  helpfulUp :: nat
  helpfulDown :: nat
  pr_createdAt :: nat

record event =
  e_images :: "media list"
  e_fields :: "(string \<times> js_value) list"

text \<open>The collections, keyed by the identifier value a handler passes to \<^verbatim>\<open>findById\<close>.\<close>

record database =
  products :: "js_value \<rightharpoonup> product"
  orders :: "js_value \<rightharpoonup> order"
  publicReviews :: "js_value \<rightharpoonup> public_review"
  events :: "js_value \<rightharpoonup> event"
  shops :: "js_value \<rightharpoonup> js_value"

text \<open>
  What a handler does with the request: \<open>Json status body\<close> is
  \<^verbatim>\<open>res.status(status).json(body)\<close>, \<open>JsonProduct status product\<close> is
  \<^verbatim>\<open>res.status(status).json({ success: true, product })\<close>, \<open>Next message status\<close> is
  \<^verbatim>\<open>next(new ErrorHandler(message, status))\<close>, and \<open>Uncaught message\<close> is an exception
  that leaves the handler body and is forwarded by \<^verbatim>\<open>catchAsyncErrors\<close>.
\<close>

datatype response =
    Json nat "(string \<times> js_value) list"
  | JsonProduct nat product
  | Next string nat
  | Uncaught string

section \<open>PUT /create-new-review\<close>

record review_request =
  rq_rating :: js_value
  rq_comment :: js_value
  rq_productId :: js_value
  rq_orderId :: js_value
  rq_user :: string

text \<open>
  The surroundings of one call: for each awaited database call the message of the error
  it rejects with (\<open>None\<close> when it resolves), and the clock read by \<^verbatim>\<open>new Date()\<close>.
\<close>

record review_env =
  product_find_error :: "string option"
  order_find_error :: "string option"
  product_save_error :: "string option"
  order_update_error :: "string option"
  now :: nat

text \<open>The \<^verbatim>\<open>catch\<close> block: \<^verbatim>\<open>new ErrorHandler(error.message || "Something went wrong", 400)\<close>.\<close>

definition review_catch :: "string \<Rightarrow> response" where
  "review_catch message = Next (if message \<noteq> [] then message else ''Something went wrong'') 400"

text \<open>\<^verbatim>\<open>typeof rating !== "number" || rating < 1 || rating > 5\<close>\<close>

fun rating_rejected :: "js_value \<Rightarrow> bool" where
  "rating_rejected (JNumber n) = (js_lt n (Finite 1) \<or> js_gt n (Finite 5))"
| "rating_rejected v = True"

text \<open>\<^verbatim>\<open>item && item.productId && item.productId.toString() === productId\<close>\<close>

fun cart_line_matches :: "js_value \<Rightarrow> cart_item option \<Rightarrow> bool" where
  "cart_line_matches productId None = False"
| "cart_line_matches productId (Some item) =
     (case ci_productId item of
        None \<Rightarrow> False
      | Some s \<Rightarrow> s \<noteq> [] \<and> JString s = productId)"

definition isProductInOrder :: "order \<Rightarrow> js_value \<Rightarrow> bool" where
  "isProductInOrder order productId = list_ex (cart_line_matches productId) (o_cart order)"

text \<open>\<^verbatim>\<open>rev?.user?.toString() === user.toString()\<close>\<close>

definition by_user :: "string \<Rightarrow> review \<Rightarrow> bool" where
  "by_user u rv = (rv_user rv = Some u)"

text \<open>
  \<^verbatim>\<open>find\<close> returns a reference to the first matching element, and the assignments to
  its fields change that element of the array: the first match is rewritten in place.
\<close>

fun assign_first :: "('a \<Rightarrow> bool) \<Rightarrow> ('a \<Rightarrow> 'a) \<Rightarrow> 'a list \<Rightarrow> 'a list" where
  "assign_first P f [] = []"
| "assign_first P f (x # xs) = (if P x then f x # xs else x # assign_first P f xs)"

definition upsert_review ::
  "string \<Rightarrow> js_number \<Rightarrow> js_value \<Rightarrow> js_value \<Rightarrow> nat \<Rightarrow> review list \<Rightarrow> review list" where
  "upsert_review u rating comment productId date reviews =
     (case find (by_user u) reviews of
        Some existingReview \<Rightarrow>
          assign_first (by_user u)
            (\<lambda>rv. rv\<lparr>rv_rating := rating, rv_comment := comment, rv_createdAt := date\<rparr>)
            reviews
      | None \<Rightarrow>
          reviews @ [\<lparr>rv_user = Some u, rv_rating = rating, rv_comment = comment,
                      rv_productId = productId, rv_createdAt = date\<rparr>])"

text \<open>\<^verbatim>\<open>product.reviews.reduce((sum, review) => sum + review.rating, 0)\<close>\<close>

definition totalRating :: "review list \<Rightarrow> js_number" where
  "totalRating reviews = foldl (\<lambda>sum review. js_add sum (rv_rating review)) (Finite 0) reviews"

definition average_rating :: "review list \<Rightarrow> js_number" where
  "average_rating reviews = js_div (totalRating reviews) (Finite (of_nat (length reviews)))"

text \<open>
  \<^verbatim>\<open>{ $set: { "cart.$[elem].isReviewed": true } }\<close> with the array filter
  \<^verbatim>\<open>elem.productId\<close> equal to the product identifier.
\<close>

definition mark_reviewed :: "js_value \<Rightarrow> cart_item option \<Rightarrow> cart_item option" where
  "mark_reviewed productId entry =
     (case entry of
        None \<Rightarrow> None
      | Some item \<Rightarrow>
          (case ci_productId item of
             None \<Rightarrow> Some item
           | Some s \<Rightarrow>
               if JString s = productId then Some (item\<lparr>ci_isReviewed := True\<rparr>) else Some item))"

definition order_set_reviewed :: "database \<Rightarrow> js_value \<Rightarrow> js_value \<Rightarrow> database" where
  "order_set_reviewed db orderId productId =
     (case orders db orderId of
        None \<Rightarrow> db
      | Some order \<Rightarrow>
          db\<lparr>orders := (orders db)(orderId \<mapsto>
                order\<lparr>o_cart := map (mark_reviewed productId) (o_cart order)\<rparr>)\<rparr>)"

text \<open>
  The handler.  \<open>isValid\<close> is \<^verbatim>\<open>mongoose.Types.ObjectId.isValid\<close>, a function of the
  database driver, taken as a parameter.  Once the second test has passed, the rating
  is a number, which the handler stores and adds up; the closing case of the definition
  only reads that number out of the value and its other branch is never taken.
\<close>

definition create_new_review ::
  "(js_value \<Rightarrow> bool) \<Rightarrow> review_env \<Rightarrow> database \<Rightarrow> review_request \<Rightarrow> response \<times> database" where
  "create_new_review isValid env db req =
     (if \<not> isValid (rq_productId req) \<or> \<not> isValid (rq_orderId req)
      then (Next ''Invalid product or order ID'' 400, db)
      else if rating_rejected (rq_rating req)
      then (Next ''Rating must be a number between 1 and 5'' 400, db)
      else case product_find_error env of Some m \<Rightarrow> (review_catch m, db) | None \<Rightarrow>
      (case products db (rq_productId req) of
         None \<Rightarrow> (Next ''Product not found'' 404, db)
       | Some product \<Rightarrow>
      (case order_find_error env of Some m \<Rightarrow> (review_catch m, db) | None \<Rightarrow>
      (case orders db (rq_orderId req) of
         None \<Rightarrow> (Next ''Order not found'' 404, db)
       | Some order \<Rightarrow>
      if \<not> isProductInOrder order (rq_productId req)
      then (Next ''Product not found in order'' 400, db)
      else
        (case rq_rating req of
           JNumber rating \<Rightarrow>
             let reviews = upsert_review (rq_user req) rating (rq_comment req)
                             (rq_productId req) (now env) (p_reviews product);
                 product' = product\<lparr>p_reviews := reviews,
                               p_ratings := JNumber (average_rating reviews)\<rparr>
             in (case product_save_error env of Some m \<Rightarrow> (review_catch m, db) | None \<Rightarrow>
                  let db' = db\<lparr>products := (products db)(rq_productId req \<mapsto> product')\<rparr>
                  in (case order_update_error env of Some m \<Rightarrow> (review_catch m, db') | None \<Rightarrow>
                       (Json 200 [(''success'', JBoolean True),
                                  (''message'', JString ''Reviewed successfully!'')],
                        order_set_reviewed db' (rq_orderId req) (rq_productId req))))
         | _ \<Rightarrow> (Next ''Rating must be a number between 1 and 5'' 400, db))))))"

text \<open>Calls in sequence, each on the database the one before left.\<close>

fun submit_reviews ::
  "(js_value \<Rightarrow> bool) \<Rightarrow> database \<Rightarrow> (review_env \<times> review_request) list \<Rightarrow> response list \<times> database" where
  "submit_reviews isValid db [] = ([], db)"
| "submit_reviews isValid db ((env, req) # calls) =
     (case create_new_review isValid env db req of
        (res, db') \<Rightarrow>
          (case submit_reviews isValid db' calls of
             (ress, db'') \<Rightarrow> (res # ress, db'')))"

text \<open>A call succeeded when it answered with status 200.\<close>

fun succeeded :: "response \<Rightarrow> bool" where
  "succeeded (Json status body) = (status = 200)"
| "succeeded r = False"

text \<open>
  The specification's formula for the aggregate,
  \<^verbatim>\<open>ratings = sum(review.rating for review in reviews) / count(reviews)\<close>.
\<close>

definition mean :: "js_number list \<Rightarrow> js_number" where
  "mean rs = js_div (foldr js_add rs (Finite 0)) (Finite (of_nat (length rs)))"

text \<open>The specification's rating: a number \<open>r\<close> with \<open>1 \<le> r \<le> 5\<close>.\<close>

fun in_1_5 :: "js_value \<Rightarrow> bool" where
  "in_1_5 (JNumber (Finite q)) = (1 \<le> q \<and> q \<le> 5)"
| "in_1_5 v = False"

text \<open>The specification's integer rating: an integer \<open>r\<close> with \<open>1 \<le> r \<le> 5\<close>.\<close>

fun integer_in_1_5 :: "js_number \<Rightarrow> bool" where
  "integer_in_1_5 (Finite q) = (q \<in> set (map of_nat [1, 2, 3, 4, 5]))"
| "integer_in_1_5 n = False"

text \<open>No line of the order's cart has the product identifier.\<close>

definition no_cart_line :: "order \<Rightarrow> js_value \<Rightarrow> bool" where
  "no_cart_line order productId =
     list_all (\<lambda>entry. case entry of
                  None \<Rightarrow> True
                | Some item \<Rightarrow>
                    (case ci_productId item of None \<Rightarrow> True | Some s \<Rightarrow> JString s \<noteq> productId))
       (o_cart order)"

section \<open>POST /public\<close>

text \<open>
  The surroundings of one call: the message \<^verbatim>\<open>PublicReview.create\<close> rejects with
  (\<open>None\<close> when it resolves), the identifier it gives the new document, and the clock.
  The new document has the two counters at their default 0.
\<close>

record public_env =
  review_create_error :: "string option"
  new_id :: js_value
  pe_now :: nat

definition post_public ::
  "public_env \<Rightarrow> database \<Rightarrow> js_value \<Rightarrow> js_value \<Rightarrow> js_value \<Rightarrow> response \<times> database" where
  "post_public env db rating comment name =
     (if \<not> truthy rating \<or> \<not> truthy comment \<or> \<not> truthy name
      then (Next ''Name, rating, and comment are required'' 400, db)
      else if rating_rejected rating
      then (Next ''Rating must be a number between 1 and 5'' 400, db)
      else case review_create_error env of Some m \<Rightarrow> (Uncaught m, db) | None \<Rightarrow>
        (Json 201 [(''success'', JBoolean True),
                   (''message'', JString ''Thank you for your review!'')],
         db\<lparr>publicReviews := (publicReviews db)(new_id env \<mapsto>
               \<lparr>pr_name = name, pr_rating = rating, pr_comment = comment,
                helpfulUp = 0, helpfulDown = 0, pr_createdAt = pe_now env\<rparr>)\<rparr>))"

section \<open>POST /vote-helpful\<close>

text \<open>The database calls a handler makes, in order.\<close>

datatype db_call = FindById js_value | Save js_value

text \<open>
  The surroundings of one vote.  \<^verbatim>\<open>PublicReview.findById\<close> first casts the identifier
  to the \<^verbatim>\<open>ObjectId\<close> of the schema's \<^verbatim>\<open>_id\<close>: \<open>review_cast\<close> tells of a value whether
  the database driver casts it, and the call rejects with a \<^verbatim>\<open>CastError\<close> when it does
  not (its message is shortened here).  The handler tests the identifier for nothing but
  being truthy and has no \<^verbatim>\<open>try\<close>, so that error leaves it.  The two other fields are
  the message a database call rejects with for another reason, \<open>None\<close> when it resolves.
\<close>

record vote_env =
  review_cast :: "js_value \<Rightarrow> bool"
  review_find_error :: "string option"
  review_save_error :: "string option"

text \<open>\<^verbatim>\<open>(counter || 0) + 1\<close>\<close>

definition bump :: "nat \<Rightarrow> nat" where
  "bump counter = (if counter \<noteq> 0 then counter else 0) + 1"

text \<open>The body of the answer to a recorded vote, with the two counters it reports.\<close>

definition vote_body :: "nat \<Rightarrow> nat \<Rightarrow> (string \<times> js_value) list" where
  "vote_body up down =
     [(''success'', JBoolean True), (''message'', JString ''Vote recorded''),
      (''helpfulUp'', JNumber (Finite (of_nat up))),
      (''helpfulDown'', JNumber (Finite (of_nat down)))]"

text \<open>
  The handler, with the database calls it has made.  The two counters are natural
  numbers: the schema gives them the default 0 and only this handler changes them.
\<close>

definition vote_helpful ::
  "vote_env \<Rightarrow> database \<Rightarrow> js_value \<Rightarrow> js_value \<Rightarrow> response \<times> database \<times> db_call list" where
  "vote_helpful env db reviewId vote =
     (if \<not> truthy reviewId \<or> \<not> truthy vote \<or> \<not> List.member [JString ''up'', JString ''down''] vote
      then (Next ''Invalid vote data'' 400, db, [])
      else if \<not> review_cast env reviewId
      then (Uncaught ''Cast to ObjectId failed'', db, [FindById reviewId])
      else case review_find_error env of
        Some m \<Rightarrow> (Uncaught m, db, [FindById reviewId])
      | None \<Rightarrow>
      (case publicReviews db reviewId of
         None \<Rightarrow> (Next ''Review not found'' 404, db, [FindById reviewId])
       | Some review \<Rightarrow>
           let review' =
                 (if vote = JString ''up'' then review\<lparr>helpfulUp := bump (helpfulUp review)\<rparr>
                  else if vote = JString ''down'' then review\<lparr>helpfulDown := bump (helpfulDown review)\<rparr>
                  else review)
           in (case review_save_error env of
                 Some m \<Rightarrow> (Uncaught m, db, [FindById reviewId, Save reviewId])
               | None \<Rightarrow>
                   (Json 200 (vote_body (helpfulUp review') (helpfulDown review')),
                    db\<lparr>publicReviews := (publicReviews db)(reviewId \<mapsto> review')\<rparr>,
                    [FindById reviewId, Save reviewId]))))"

text \<open>The same vote twice in sequence, the second on the database the first left.\<close>

definition vote_twice ::
  "vote_env \<Rightarrow> database \<Rightarrow> js_value \<Rightarrow> js_value \<Rightarrow> response \<times> database \<times> db_call list" where
  "vote_twice env db reviewId vote =
     (case vote_helpful env db reviewId vote of
        (res1, db1, calls1) \<Rightarrow> vote_helpful env db1 reviewId vote)"

section \<open>DELETE /delete-shop-product/:id and DELETE /delete-shop-event/:id\<close>

text \<open>
  What a deletion does, in order: a call of \<^verbatim>\<open>cloudinary.v2.uploader.destroy\<close> with a
  \<^verbatim>\<open>public_id\<close>, a \<^verbatim>\<open>console.error\<close>, and the call of \<^verbatim>\<open>remove\<close> on the document.
\<close>

datatype media_call = Destroy js_value | ConsoleError string | RemoveRecord

text \<open>
  \<open>destroy_rejects i\<close> tells whether the \<open>i\<close>-th call of \<^verbatim>\<open>destroy\<close> of the request
  rejects; the two database calls reject with a message or resolve.
\<close>

record delete_env =
  find_error :: "string option"
  destroy_rejects :: "nat \<Rightarrow> bool"
  remove_error :: "string option"

text \<open>
  The loop over the images, each \<^verbatim>\<open>destroy\<close> inside its own \<^verbatim>\<open>try\<close> whose \<^verbatim>\<open>catch\<close>
  only logs.
\<close>

fun destroy_images :: "(nat \<Rightarrow> bool) \<Rightarrow> string \<Rightarrow> nat \<Rightarrow> media list \<Rightarrow> media_call list" where
  "destroy_images rejects label i [] = []"
| "destroy_images rejects label i (img # imgs) =
     Destroy (public_id img)
       # (if rejects i then [ConsoleError label] else [])
       @ destroy_images rejects label (Suc i) imgs"

definition delete_shop_product ::
  "delete_env \<Rightarrow> database \<Rightarrow> js_value \<Rightarrow> response \<times> database \<times> media_call list" where
  "delete_shop_product env db param_id =
     (case find_error env of
        Some m \<Rightarrow> (Next m 400, db, [])
      | None \<Rightarrow>
      (case products db param_id of
         None \<Rightarrow> (Next ''Product not found with this id'' 404, db, [])
       | Some product \<Rightarrow>
           let calls = destroy_images (destroy_rejects env) ''Failed to delete image:'' 0
                         (p_images product)
           in (case remove_error env of
                 Some m \<Rightarrow> (Next m 400, db, calls @ [RemoveRecord])
               | None \<Rightarrow>
                   (Json 200 [(''success'', JBoolean True),
                              (''message'', JString ''Product deleted successfully!'')],
                    db\<lparr>products := (products db)(param_id := None)\<rparr>,
                    calls @ [RemoveRecord]))))"

definition delete_shop_event ::
  "delete_env \<Rightarrow> database \<Rightarrow> js_value \<Rightarrow> response \<times> database \<times> media_call list" where
  "delete_shop_event env db param_id =
     (case find_error env of
        Some m \<Rightarrow> (Uncaught m, db, [])
      | None \<Rightarrow>
      (case events db param_id of
         None \<Rightarrow> (Next ''Event not found with this ID'' 404, db, [])
       | Some event \<Rightarrow>
           let calls = destroy_images (destroy_rejects env) ''Cloudinary deletion error:'' 0
                         (e_images event)
           in (case remove_error env of
                 Some m \<Rightarrow> (Uncaught m, db, calls @ [RemoveRecord])
               | None \<Rightarrow>
                   (Json 200 [(''success'', JBoolean True),
                              (''message'', JString ''Event deleted successfully!'')],
                    db\<lparr>events := (events db)(param_id := None)\<rparr>,
                    calls @ [RemoveRecord]))))"

text \<open>The identifiers the loop called \<^verbatim>\<open>destroy\<close> with, in order.\<close>

fun destroy_attempts :: "media_call list \<Rightarrow> js_value list" where
  "destroy_attempts [] = []"
| "destroy_attempts (Destroy i # calls) = i # destroy_attempts calls"
| "destroy_attempts (ConsoleError m # calls) = destroy_attempts calls"
| "destroy_attempts (RemoveRecord # calls) = destroy_attempts calls"

section \<open>POST /create-product\<close>

text \<open>
  \<^verbatim>\<open>req.body\<close> as the list of its fields; a field that is absent reads as \<^verbatim>\<open>undefined\<close>.
  \<open>body_rest\<close> is the \<^verbatim>\<open>...rest\<close> of the destructuring: every field not named in it.
\<close>

type_synonym body = "(string \<times> js_value) list"

definition field :: "body \<Rightarrow> string \<Rightarrow> js_value" where
  "field b k = (case map_of b k of None \<Rightarrow> JUndefined | Some v \<Rightarrow> v)"

definition body_rest :: "string list \<Rightarrow> body \<Rightarrow> body" where
  "body_rest named b = filter (\<lambda>kv. fst kv \<notin> set named) b"

text \<open>
  \<^verbatim>\<open>String.prototype.trim\<close>, on the white space of ASCII (a character here is a byte).
\<close>

definition is_space :: "char \<Rightarrow> bool" where
  "is_space c = (c \<in> set [CHR '' '', CHR 0x09, CHR 0x0A, CHR 0x0B, CHR 0x0C, CHR 0x0D])"

definition trim :: "string \<Rightarrow> string" where
  "trim s = rev (dropWhile is_space (rev (dropWhile is_space s)))"

text \<open>
  \<^verbatim>\<open>!location || location.trim() === ""\<close>: \<open>Inr\<close> the value of the test, \<open>Inl\<close> the message
  of the \<^verbatim>\<open>TypeError\<close> of calling \<^verbatim>\<open>trim\<close> on a value that has none.
\<close>

definition location_missing :: "js_value \<Rightarrow> string + bool" where
  "location_missing location =
     (if \<not> truthy location then Inr True
      else case location of
             JString s \<Rightarrow> Inr (trim s = [])
           | _ \<Rightarrow> Inl ''location.trim is not a function'')"

text \<open>What the handler hands to \<^verbatim>\<open>Product.create\<close>.\<close>

record product_data =
  pd_rest :: body
  pd_location :: js_value
  pd_details :: js_value
  pd_images :: js_value
  pd_videos :: "js_value option"
  pd_shopId :: js_value
  pd_shop :: js_value
  pd_sold_out :: nat
  pd_createdAt :: nat

text \<open>
  The surroundings of one creation request.  \<open>upload i payload\<close> is the \<open>i\<close>-th call of
  \<^verbatim>\<open>cloudinary.v2.uploader.upload\<close> of the request: the descriptor made of the result's
  \<^verbatim>\<open>public_id\<close> and \<^verbatim>\<open>secure_url\<close>, or \<open>None\<close> when the call rejects.  \<open>Product_create\<close>
  is \<^verbatim>\<open>Product.create\<close> of the product model, which is not among the sources: it rejects
  with a message, or resolves with the identifier and the document it has stored.
\<close>

record create_env =
  shop_find_error :: "string option"
  upload :: "nat \<Rightarrow> js_value \<Rightarrow> media option"
  Product_create :: "product_data \<Rightarrow> string + js_value \<times> product"
  ce_now :: nat

text \<open>The images field as the list to upload (first handler).\<close>

definition imagesArray :: "js_value \<Rightarrow> js_value list" where
  "imagesArray images =
     (case images of
        JString s \<Rightarrow> [JString s]
      | JArray xs \<Rightarrow> xs
      | _ \<Rightarrow> [])"

text \<open>
  The upload loop: \<open>Inr\<close> the collected \<^verbatim>\<open>imagesLinks\<close>, or \<open>Inl\<close> the descriptors
  uploaded before the call that rejected, at which the handler returns.
\<close>

fun upload_images ::
  "(nat \<Rightarrow> js_value \<Rightarrow> media option) \<Rightarrow> nat \<Rightarrow> js_value list \<Rightarrow> media list \<Rightarrow> media list + media list" where
  "upload_images up i [] imagesLinks = Inr imagesLinks"
| "upload_images up i (x # xs) imagesLinks =
     (case up i x of
        None \<Rightarrow> Inl imagesLinks
      | Some result \<Rightarrow> upload_images up (Suc i) xs (imagesLinks @ [result]))"

definition media_object :: "media \<Rightarrow> js_value" where
  "media_object m = JObject [(''public_id'', public_id m), (''url'', url m)]"

definition details_array :: "js_value \<Rightarrow> js_value" where
  "details_array details = (case details of JArray xs \<Rightarrow> JArray xs | _ \<Rightarrow> JArray [])"

text \<open>The handler of the first product controller, which uploads the images itself.\<close>

definition create_product :: "create_env \<Rightarrow> database \<Rightarrow> body \<Rightarrow> response \<times> database" where
  "create_product env db b =
     (let shopId = field b ''shopId''; images = field b ''images'';
          location = field b ''location''; details = field b ''details'';
          rest = body_rest [''shopId'', ''images'', ''location'', ''details''] b
      in case location_missing location of
           Inl m \<Rightarrow> (Next m 400, db)
         | Inr True \<Rightarrow> (Next ''Product location is required'' 400, db)
         | Inr False \<Rightarrow>
      if \<not> truthy shopId then (Next ''Shop ID is required'' 400, db)
      else case shop_find_error env of Some m \<Rightarrow> (Next m 400, db) | None \<Rightarrow>
      (case shops db shopId of
         None \<Rightarrow> (Next ''Shop Id is invalid!'' 400, db)
       | Some shop \<Rightarrow>
      (case upload_images (upload env) 0 (imagesArray images) [] of
         Inl uploaded \<Rightarrow> (Next ''Image upload failed'' 500, db)
       | Inr imagesLinks \<Rightarrow>
      (case Product_create env
              \<lparr>pd_rest = rest, pd_location = location, pd_details = details_array details,
               pd_images = JArray (map media_object imagesLinks), pd_videos = None,
               pd_shopId = shopId, pd_shop = shop, pd_sold_out = 0,
               pd_createdAt = ce_now env\<rparr> of
         Inl m \<Rightarrow> (Next m 400, db)
       | Inr (new_product_id, product) \<Rightarrow>
           (JsonProduct 201 product,
            db\<lparr>products := (products db)(new_product_id \<mapsto> product)\<rparr>)))))"

text \<open>
  The second product controller expects the media already uploaded.  Its
  \<^verbatim>\<open>parseMediaArray\<close> calls \<^verbatim>\<open>JSON.parse\<close>, taken as the parameter \<open>JSON_parse\<close>:
  \<open>None\<close> when it throws.
\<close>

definition parseMediaArray :: "(string \<Rightarrow> js_value option) \<Rightarrow> js_value \<Rightarrow> js_value" where
  "parseMediaArray JSON_parse media =
     (if \<not> truthy media then JArray []
      else case media of
             JString s \<Rightarrow> (case JSON_parse s of Some v \<Rightarrow> v | None \<Rightarrow> JArray [])
           | JArray xs \<Rightarrow> JArray xs
           | _ \<Rightarrow> JArray [])"

text \<open>
  \<^verbatim>\<open>for (const img of imagesLinks)\<close>: the elements of an array, the characters of a
  string, and a \<^verbatim>\<open>TypeError\<close> for a value that is not iterable.
\<close>

definition iterate :: "js_value \<Rightarrow> string + js_value list" where
  "iterate v =
     (case v of
        JArray xs \<Rightarrow> Inr xs
      | JString s \<Rightarrow> Inr (map (\<lambda>c. JString [c]) s)
      | _ \<Rightarrow> Inl ''value is not iterable'')"

text \<open>
  \<^verbatim>\<open>img.public_id\<close> and \<^verbatim>\<open>img.url\<close>: a \<^verbatim>\<open>TypeError\<close> on \<^verbatim>\<open>null\<close> and \<^verbatim>\<open>undefined\<close>, the
  field of an object, and \<^verbatim>\<open>undefined\<close> on every other value, which has no property of
  either name.
\<close>

definition property :: "js_value \<Rightarrow> string \<Rightarrow> string + js_value" where
  "property v k =
     (case v of
        JUndefined \<Rightarrow> Inl ''Cannot read properties of undefined''
      | JNull \<Rightarrow> Inl ''Cannot read properties of null''
      | JObject kvs \<Rightarrow> Inr (field kvs k)
      | _ \<Rightarrow> Inr JUndefined)"

text \<open>
  The validation loop: \<open>Inr True\<close> when it meets a descriptor with \<^verbatim>\<open>!img.public_id || !img.url\<close>,
  \<open>Inr False\<close> when it runs to its end, \<open>Inl\<close> for a \<^verbatim>\<open>TypeError\<close>.
\<close>

fun invalid_media :: "js_value list \<Rightarrow> string + bool" where
  "invalid_media [] = Inr False"
| "invalid_media (img # imgs) =
     (case property img ''public_id'' of
        Inl m \<Rightarrow> Inl m
      | Inr p \<Rightarrow>
          if \<not> truthy p then Inr True
          else (case property img ''url'' of
                  Inl m \<Rightarrow> Inl m
                | Inr u \<Rightarrow> if \<not> truthy u then Inr True else invalid_media imgs))"

definition invalid_media_value :: "js_value \<Rightarrow> string + bool" where
  "invalid_media_value links =
     (case iterate links of Inl m \<Rightarrow> Inl m | Inr xs \<Rightarrow> invalid_media xs)"

definition create_product_v2 ::
  "(string \<Rightarrow> js_value option) \<Rightarrow> create_env \<Rightarrow> database \<Rightarrow> body \<Rightarrow> response \<times> database" where
  "create_product_v2 JSON_parse env db b =
     (let shopId = field b ''shopId''; images = field b ''images''; videos = field b ''videos'';
          location = field b ''location''; details = field b ''details'';
          rest = body_rest [''shopId'', ''images'', ''videos'', ''location'', ''details''] b
      in case location_missing location of
           Inl m \<Rightarrow> (Uncaught m, db)
         | Inr True \<Rightarrow> (Next ''Product location is required'' 400, db)
         | Inr False \<Rightarrow>
      if \<not> truthy shopId then (Next ''Shop ID is required'' 400, db)
      else case shop_find_error env of Some m \<Rightarrow> (Uncaught m, db) | None \<Rightarrow>
      (case shops db shopId of
         None \<Rightarrow> (Next ''Invalid Shop ID'' 400, db)
       | Some shop \<Rightarrow>
      let imagesLinks = parseMediaArray JSON_parse images;
          videoLinks = parseMediaArray JSON_parse videos
      in case invalid_media_value imagesLinks of
           Inl m \<Rightarrow> (Uncaught m, db)
         | Inr True \<Rightarrow> (Next ''Invalid image data format'' 400, db)
         | Inr False \<Rightarrow>
      (case invalid_media_value videoLinks of
           Inl m \<Rightarrow> (Uncaught m, db)
         | Inr True \<Rightarrow> (Next ''Invalid video data format'' 400, db)
         | Inr False \<Rightarrow>
      (case Product_create env
              \<lparr>pd_rest = rest, pd_location = location, pd_details = details_array details,
               pd_images = imagesLinks, pd_videos = Some videoLinks,
               pd_shopId = shopId, pd_shop = shop, pd_sold_out = 0,
               pd_createdAt = ce_now env\<rparr> of
         Inl m \<Rightarrow> (Uncaught m, db)
       | Inr (new_product_id, product) \<Rightarrow>
           (JsonProduct 201 product,
            db\<lparr>products := (products db)(new_product_id \<mapsto> product)\<rparr>)))))"

text \<open>A creation request succeeded when it answered with the new product.\<close>

fun created :: "response \<Rightarrow> bool" where
  "created (JsonProduct status product) = True"
| "created r = False"

section \<open>Sample data\<close>

text \<open>
  A small database for the worked examples: one product without reviews and with three
  images, an order whose cart holds that product and one whose cart does not, a public
  review without votes, an event with three images, and a shop.  Identifiers are
  strings of 24 hexadecimal digits, which \<open>hex24\<close> recognises; the examples pass it
  for \<^verbatim>\<open>ObjectId.isValid\<close>.
\<close>

definition hex24 :: "js_value \<Rightarrow> bool" where
  "hex24 v =
     (case v of
        JString s \<Rightarrow> length s = 24 \<and> list_all (\<lambda>c. c \<in> set ''0123456789abcdefABCDEF'') s
      | _ \<Rightarrow> False)"

definition ex_pid :: string where "ex_pid = ''64b7f0c2a1d3e4f5a6b7c8d1''"
definition ex_oid :: string where "ex_oid = ''64b7f0c2a1d3e4f5a6b7c8d2''"
definition ex_rid :: string where "ex_rid = ''64b7f0c2a1d3e4f5a6b7c8d3''"
definition ex_eid :: string where "ex_eid = ''64b7f0c2a1d3e4f5a6b7c8d4''"
definition ex_sid :: string where "ex_sid = ''64b7f0c2a1d3e4f5a6b7c8d5''"
definition ex_new :: string where "ex_new = ''64b7f0c2a1d3e4f5a6b7c8d6''"
definition ex_oid2 :: string where "ex_oid2 = ''64b7f0c2a1d3e4f5a6b7c8d7''"

definition ex_images :: "media list" where
  "ex_images =
     [\<lparr>public_id = JString ''products/a'', url = JString ''http://x/a.png''\<rparr>,
      \<lparr>public_id = JString ''products/b'', url = JString ''http://x/b.png''\<rparr>,
      \<lparr>public_id = JString ''products/c'', url = JString ''http://x/c.png''\<rparr>]"

definition ex_product :: product where
  "ex_product =
     \<lparr>p_images = ex_images, p_videos = [], p_reviews = [], p_ratings = JUndefined,
      p_fields = [(''name'', JString ''Chair'')]\<rparr>"

definition ex_order :: order where
  "ex_order = \<lparr>o_cart = [None, Some \<lparr>ci_productId = Some ex_pid, ci_isReviewed = False\<rparr>]\<rparr>"

definition ex_other_order :: order where
  "ex_other_order = \<lparr>o_cart = [Some \<lparr>ci_productId = Some ex_new, ci_isReviewed = False\<rparr>]\<rparr>"

definition ex_public_review :: public_review where
  "ex_public_review =
     \<lparr>pr_name = JString ''Ann'', pr_rating = JNumber (Finite 5), pr_comment = JString ''Good'',
      helpfulUp = 0, helpfulDown = 0, pr_createdAt = 1\<rparr>"

definition ex_event :: event where
  "ex_event = \<lparr>e_images = ex_images, e_fields = [(''name'', JString ''Sale'')]\<rparr>"

definition ex_db :: database where
  "ex_db =
     \<lparr>products = [JString ex_pid \<mapsto> ex_product],
      orders = [JString ex_oid \<mapsto> ex_order, JString ex_oid2 \<mapsto> ex_other_order],
      publicReviews = [JString ex_rid \<mapsto> ex_public_review],
      events = [JString ex_eid \<mapsto> ex_event],
      shops = [JString ex_sid \<mapsto> JObject [(''name'', JString ''Shop'')]]\<rparr>"

text \<open>A call at time \<open>t\<close> in which no database call rejects, and a review request.\<close>

definition ex_env :: "nat \<Rightarrow> review_env" where
  "ex_env t =
     \<lparr>product_find_error = None, order_find_error = None, product_save_error = None,
      order_update_error = None, now = t\<rparr>"

definition ex_req :: "string \<Rightarrow> js_value \<Rightarrow> js_value \<Rightarrow> review_request" where
  "ex_req u rating comment =
     \<lparr>rq_rating = rating, rq_comment = comment, rq_productId = JString ex_pid,
      rq_orderId = JString ex_oid, rq_user = u\<rparr>"

text \<open>Three reviewers rate the sample product 4, 2 and 5.\<close>

definition ex_three :: "(review_env \<times> review_request) list" where
  "ex_three =
     [(ex_env 1, ex_req ''ann'' (JNumber (Finite 4)) (JString ''good'')),
      (ex_env 2, ex_req ''bob'' (JNumber (Finite 2)) (JString ''poor'')),
      (ex_env 3, ex_req ''cat'' (JNumber (Finite 5)) (JString ''great''))]"

text \<open>One reviewer rates the sample product twice.\<close>

definition ex_twice :: "(review_env \<times> review_request) list" where
  "ex_twice =
     [(ex_env 1, ex_req ''ann'' (JNumber (Finite 4)) (JString ''good'')),
      (ex_env 2, ex_req ''ann'' (JNumber (Finite 2)) (JString ''poor''))]"

text \<open>The surroundings of a public review that is stored under a new identifier.\<close>

definition ex_penv :: public_env where
  "ex_penv = \<lparr>review_create_error = None, new_id = JString ex_new, pe_now = 9\<rparr>"

text \<open>
  A vote during which no database call rejects for a reason of its own; the identifiers
  that cast are the strings of 24 hexadecimal digits.
\<close>

definition ex_venv :: vote_env where
  "ex_venv = \<lparr>review_cast = hex24, review_find_error = None, review_save_error = None\<rparr>"

text \<open>A deletion in which the second call of \<^verbatim>\<open>destroy\<close> rejects and the database calls resolve.\<close>

definition ex_denv :: delete_env where
  "ex_denv = \<lparr>find_error = None, destroy_rejects = (\<lambda>i. i = 1), remove_error = None\<rparr>"

text \<open>
  The surroundings of a creation request: the second upload rejects and every other one
  resolves; \<^verbatim>\<open>Product.create\<close> stores the descriptors it is given, under a new identifier.
\<close>

fun ex_media :: "js_value \<Rightarrow> media list" where
  "ex_media (JArray xs) =
     map (\<lambda>x. case x of
                 JObject kvs \<Rightarrow> \<lparr>public_id = field kvs ''public_id'', url = field kvs ''url''\<rparr>
               | _ \<Rightarrow> \<lparr>public_id = JUndefined, url = JUndefined\<rparr>) xs"
| "ex_media v = []"

definition ex_Product_create :: "product_data \<Rightarrow> string + js_value \<times> product" where
  "ex_Product_create d =
     Inr (JString ex_new,
          \<lparr>p_images = ex_media (pd_images d),
           p_videos = (case pd_videos d of None \<Rightarrow> [] | Some v \<Rightarrow> ex_media v),
           p_reviews = [], p_ratings = JUndefined,
           p_fields = (''location'', pd_location d) # pd_rest d\<rparr>)"

definition ex_cenv :: create_env where
  "ex_cenv =
     \<lparr>shop_find_error = None,
      upload = (\<lambda>i payload. if i = 1 then None
                             else Some \<lparr>public_id = JString ''products/new'', url = payload\<rparr>),
      Product_create = ex_Product_create,
      ce_now = 11\<rparr>"

text \<open>
  \<^verbatim>\<open>JSON.parse\<close> on the texts of the examples: it parses \<^verbatim>\<open>[]\<close> and throws on
  \<^verbatim>\<open>{not valid json\<close>, which is no JSON text.  No example applies it to another text.
\<close>

definition ex_JSON_parse :: "string \<Rightarrow> js_value option" where
  "ex_JSON_parse s = (if s = ''[]'' then Some (JArray []) else None)"

text \<open>A creation request for the sample shop, with the given images field.\<close>

definition ex_body :: "js_value \<Rightarrow> body" where
  "ex_body images =
     [(''images'', images), (''name'', JString ''Lamp''), (''shopId'', JString ex_sid),
      (''location'', JString '' Nairobi '')]"

section \<open>Numbers and the review list\<close>

lemma js_add_assoc: "js_add (js_add a b) c = js_add a (js_add b c)"
  by (cases a; cases b; cases c) simp_all

lemma js_add_zero_left: "js_add (Finite 0) a = a"
  by (cases a) simp_all

lemma js_add_zero_right: "js_add a (Finite 0) = a"
  by (cases a) simp_all

lemma foldl_js_add:
  "foldl (\<lambda>sum review. js_add sum (rv_rating review)) a reviews =
     js_add a (foldr js_add (map rv_rating reviews) (Finite 0))"
  by (induction reviews arbitrary: a) (simp_all add: js_add_zero_right js_add_assoc)

lemma average_rating_mean: "average_rating reviews = mean (map rv_rating reviews)"
  by (simp add: average_rating_def totalRating_def mean_def foldl_js_add js_add_zero_left)

text \<open>On finite ratings \<open>mean\<close> is the arithmetic mean.\<close>

lemma foldr_js_add_Finite: "foldr js_add (map Finite qs) (Finite 0) = Finite (sum_list qs)"
  by (induction qs) simp_all

lemma mean_Finite:
  "qs \<noteq> [] \<Longrightarrow> mean (map Finite qs) = Finite (sum_list qs / of_nat (length qs))"
  by (simp add: mean_def foldr_js_add_Finite)

lemma rating_rejected_iff:
  "rating_rejected v \<longleftrightarrow> \<not> in_1_5 v \<and> v \<noteq> JNumber NaN"
  by (cases v rule: in_1_5.cases) (auto simp: js_gt_def)

lemma length_assign_first: "length (assign_first P f xs) = length xs"
  by (induction xs) simp_all

lemma filter_assign_first:
  assumes "\<And>x. P x \<Longrightarrow> P (f x)" and "find P xs = Some y"
  shows "filter P (assign_first P f xs) = f y # tl (filter P xs)"
  using assms(2)
proof (induction xs)
  case Nil
  then show ?case by simp
next
  case (Cons x xs)
  then show ?case
    by (cases "P x") (simp_all add: assms(1))
qed

lemma find_None_filter: "find P xs = None \<longleftrightarrow> filter P xs = []"
  by (induction xs) simp_all

lemma length_upsert_review:
  "length (upsert_review u n c pid t rs) =
     length rs + (if filter (by_user u) rs = [] then 1 else 0)"
  by (cases "find (by_user u) rs")
     (simp_all add: upsert_review_def length_assign_first find_None_filter [symmetric])

lemma upsert_review_not_Nil: "upsert_review u n c pid t rs \<noteq> []"
  using length_upsert_review [of u n c pid t rs]
  by (cases rs) (auto split: if_splits)

lemma filter_upsert_review:
  assumes "length (filter (by_user u) rs) \<le> 1"
  shows "\<exists>r. filter (by_user u) (upsert_review u n c pid t rs) = [r] \<and>
             rv_rating r = n \<and> rv_comment r = c \<and> rv_createdAt r = t"
proof (cases "find (by_user u) rs")
  case None
  then have "filter (by_user u) rs = []"
    by (simp add: find_None_filter)
  with None show ?thesis
    by (simp add: upsert_review_def by_user_def)
next
  case (Some y)
  from assms have "tl (filter (by_user u) rs) = []"
    by (cases "filter (by_user u) rs") simp_all
  moreover have "filter (by_user u)
                  (assign_first (by_user u)
                     (\<lambda>rv. rv\<lparr>rv_rating := n, rv_comment := c, rv_createdAt := t\<rparr>) rs) =
                y\<lparr>rv_rating := n, rv_comment := c, rv_createdAt := t\<rparr> # tl (filter (by_user u) rs)"
    using Some by (intro filter_assign_first) (simp_all add: by_user_def)
  ultimately show ?thesis
    using Some by (simp add: upsert_review_def)
qed

section \<open>What a successful review call has done\<close>

lemma review_success:
  assumes "create_new_review isValid env db req = (res, db')" and "succeeded res"
  shows "\<exists>product rating.
           products db (rq_productId req) = Some product \<and>
           rq_rating req = JNumber rating \<and>
           \<not> rating_rejected (rq_rating req) \<and>
           products db' (rq_productId req) =
             Some (product\<lparr>p_reviews := upsert_review (rq_user req) rating (rq_comment req)
                                         (rq_productId req) (now env) (p_reviews product),
                           p_ratings := JNumber (average_rating
                              (upsert_review (rq_user req) rating (rq_comment req)
                                         (rq_productId req) (now env) (p_reviews product)))\<rparr>)"
  using assms
  by (auto simp: create_new_review_def review_catch_def Let_def order_set_reviewed_def
           split: if_splits option.splits js_value.splits)

lemma review_success_reviews:
  assumes "create_new_review isValid env db req = (res, db')" and "succeeded res"
      and "products db (rq_productId req) = Some product" and "rq_rating req = JNumber rating"
  shows "\<exists>product'. products db' (rq_productId req) = Some product' \<and>
           p_reviews product' = upsert_review (rq_user req) rating (rq_comment req)
                                         (rq_productId req) (now env) (p_reviews product) \<and>
           p_ratings product' = JNumber (average_rating (p_reviews product'))"
  using review_success [OF assms(1,2)] assms(3,4) by auto

lemma submit_reviews_Cons:
  "submit_reviews isValid db ((env, req) # calls) = (ress, db'') \<longleftrightarrow>
     (\<exists>res db' ress'. create_new_review isValid env db req = (res, db') \<and>
        submit_reviews isValid db' calls = (ress', db'') \<and> ress = res # ress')"
  by (auto split: prod.splits)

lemma cart_line_matchesD:
  "cart_line_matches productId entry \<Longrightarrow>
     \<exists>item s. entry = Some item \<and> ci_productId item = Some s \<and> JString s = productId"
  by (cases entry) (auto split: option.splits)

lemma no_cart_line_not_in_order:
  "no_cart_line order productId \<Longrightarrow> \<not> isProductInOrder order productId"
  unfolding no_cart_line_def isProductInOrder_def list_all_iff list_ex_iff
  by (fastforce dest: cart_line_matchesD)

lemmas ex_defs =
  ex_db_def ex_env_def ex_req_def ex_product_def ex_order_def ex_other_order_def
  ex_pid_def ex_oid_def ex_oid2_def ex_new_def hex24_def

section \<open>Rejected ratings\<close>

text \<open>
  Claim C3.  A call of \<^verbatim>\<open>create-new-review\<close> whose rating is not a number, or is a
  number outside the interval from 1 to 5 (the two infinities included), is answered
  with an error of status 400, and the database, so the product's review list and its
  \<open>ratings\<close>, is what it was.  The message names the rating unless one of the two
  identifiers is itself invalid, which the handler tests first.  \<^verbatim>\<open>NaN\<close>, which has type
  number and is unordered, is not covered: no JSON request body can carry it.
\<close>

theorem invalid_rating_rejected:
  assumes "\<not> in_1_5 (rq_rating req)" and "rq_rating req \<noteq> JNumber NaN"
  shows "create_new_review isValid env db req =
           (Next (if isValid (rq_productId req) \<and> isValid (rq_orderId req)
                  then ''Rating must be a number between 1 and 5''
                  else ''Invalid product or order ID'') 400, db)"
proof -
  from assms have "rating_rejected (rq_rating req)"
    by (simp add: rating_rejected_iff)
  then show ?thesis
    by (simp add: create_new_review_def)
qed

theorem invalid_rating_rejected_witness:
  "create_new_review hex24 (ex_env 7) ex_db (ex_req ''u1'' (JString ''5'') (JString ''ok'')) =
     (Next ''Rating must be a number between 1 and 5'' 400, ex_db) \<and>
   create_new_review hex24 (ex_env 7) ex_db (ex_req ''u1'' (JNumber (Finite (11 / 2))) (JString ''ok'')) =
     (Next ''Rating must be a number between 1 and 5'' 400, ex_db)"
  using invalid_rating_rejected [of "ex_req ''u1'' (JString ''5'') (JString ''ok'')" hex24 "ex_env 7" ex_db]
        invalid_rating_rejected [of "ex_req ''u1'' (JNumber (Finite (11 / 2))) (JString ''ok'')" hex24 "ex_env 7" ex_db]
  by (simp add: ex_req_def ex_pid_def ex_oid_def hex24_def)

text \<open>\<^verbatim>\<open>NaN\<close> passes the guard of the handler, whose two comparisons are false on it.\<close>

lemma NaN_not_rejected: "\<not> rating_rejected (JNumber NaN)"
  by (simp add: js_gt_def)

section \<open>A product that the order does not hold\<close>

text \<open>
  Claim C4.  When the order named by the request exists and no line of its cart has the
  request's product identifier, the call never succeeds and leaves the database, so the
  product, as it was; and when the checks that come before the cart test pass (both
  identifiers valid, the rating a number from 1 to 5, the product found, no database
  call rejecting), the answer is the error \<^verbatim>\<open>Product not found in order\<close> with status 400.
\<close>

theorem product_not_in_order:
  assumes "orders db (rq_orderId req) = Some order"
      and "no_cart_line order (rq_productId req)"
  shows "snd (create_new_review isValid env db req) = db \<and>
         \<not> succeeded (fst (create_new_review isValid env db req)) \<and>
         (isValid (rq_productId req) \<and> isValid (rq_orderId req) \<and>
          in_1_5 (rq_rating req) \<and>
          product_find_error env = None \<and> order_find_error env = None \<and>
          products db (rq_productId req) \<noteq> None \<longrightarrow>
          fst (create_new_review isValid env db req) = Next ''Product not found in order'' 400)"
  using assms no_cart_line_not_in_order [OF assms(2)]
  by (auto simp: create_new_review_def review_catch_def rating_rejected_iff split: option.splits)

theorem product_not_in_order_witness:
  "create_new_review hex24 (ex_env 7) ex_db
     ((ex_req ''u1'' (JNumber (Finite 4)) (JString ''ok''))\<lparr>rq_orderId := JString ex_oid2\<rparr>) =
     (Next ''Product not found in order'' 400, ex_db)"
  using product_not_in_order
          [of ex_db "(ex_req ''u1'' (JNumber (Finite 4)) (JString ''ok''))\<lparr>rq_orderId := JString ex_oid2\<rparr>"
              ex_other_order hex24 "ex_env 7"]
  by (simp add: ex_defs no_cart_line_def prod_eq_iff)


section \<open>The aggregate rating\<close>

lemma three_reviewers:
  assumes p0: "products db0 pid = Some product0" "p_reviews product0 = []"
      and u: "u1 \<noteq> u2" "u1 \<noteq> u3" "u2 \<noteq> u3"
      and run: "submit_reviews isValid db0
              [(e1, \<lparr>rq_rating = JNumber (Finite 4), rq_comment = c1, rq_productId = pid,
                     rq_orderId = o1, rq_user = u1\<rparr>),
               (e2, \<lparr>rq_rating = JNumber (Finite 2), rq_comment = c2, rq_productId = pid,
                     rq_orderId = o2, rq_user = u2\<rparr>),
               (e3, \<lparr>rq_rating = JNumber (Finite 5), rq_comment = c3, rq_productId = pid,
                     rq_orderId = o3, rq_user = u3\<rparr>)] = (ress, db3)"
      and ok: "list_all succeeded ress"
  shows "\<exists>product. products db3 pid = Some product \<and>
           map rv_rating (p_reviews product) = [Finite 4, Finite 2, Finite 5] \<and>
           p_ratings product = JNumber (Finite (11 / 3))"
proof -
  let ?q1 = "\<lparr>rq_rating = JNumber (Finite 4), rq_comment = c1, rq_productId = pid,
                     rq_orderId = o1, rq_user = u1\<rparr>"
  let ?q2 = "\<lparr>rq_rating = JNumber (Finite 2), rq_comment = c2, rq_productId = pid,
                     rq_orderId = o2, rq_user = u2\<rparr>"
  let ?q3 = "\<lparr>rq_rating = JNumber (Finite 5), rq_comment = c3, rq_productId = pid,
                     rq_orderId = o3, rq_user = u3\<rparr>"
  from run obtain r1 d1 r2 d2 r3 where
    c1: "create_new_review isValid e1 db0 ?q1 = (r1, d1)" and
    c2: "create_new_review isValid e2 d1 ?q2 = (r2, d2)" and
    c3: "create_new_review isValid e3 d2 ?q3 = (r3, db3)" and
    ress: "ress = [r1, r2, r3]"
    by (auto simp: submit_reviews_Cons simp del: submit_reviews.simps(2))
  from ok ress have s: "succeeded r1" "succeeded r2" "succeeded r3"
    by simp_all
  have "products db0 (rq_productId ?q1) = Some product0" and "rq_rating ?q1 = JNumber (Finite 4)"
    using p0 by simp_all
  from review_success_reviews [OF c1 s(1) this] p0 obtain p1 where
    p1: "products d1 pid = Some p1"
        "p_reviews p1 = upsert_review u1 (Finite 4) c1 pid (now e1) []"
    by auto
  have "products d1 (rq_productId ?q2) = Some p1" and "rq_rating ?q2 = JNumber (Finite 2)"
    using p1 by simp_all
  from review_success_reviews [OF c2 s(2) this] obtain p2 where
    p2: "products d2 pid = Some p2"
        "p_reviews p2 = upsert_review u2 (Finite 2) c2 pid (now e2) (p_reviews p1)"
    by auto
  have "products d2 (rq_productId ?q3) = Some p2" and "rq_rating ?q3 = JNumber (Finite 5)"
    using p2 by simp_all
  from review_success_reviews [OF c3 s(3) this] obtain p3 where
    p3: "products db3 pid = Some p3"
        "p_reviews p3 = upsert_review u3 (Finite 5) c3 pid (now e3) (p_reviews p2)"
        "p_ratings p3 = JNumber (average_rating (p_reviews p3))"
    by auto
  from u have rs: "map rv_rating (p_reviews p3) = [Finite 4, Finite 2, Finite 5]"
    by (simp add: p3(2) p2(2) p1(2) upsert_review_def by_user_def)
  have "average_rating (p_reviews p3) = Finite (11 / 3)"
    by (simp add: average_rating_mean rs mean_def)
  with p3 rs show ?thesis by simp
qed


text \<open>
  Claim C1.  After a successful call of \<^verbatim>\<open>create-new-review\<close> the stored product has
  at least one review and its \<open>ratings\<close> is the sum of the ratings of its stored
  reviews divided by their number.  In particular, when three different reviewers rate
  a product that had no review 4, 2 and 5, in three successful calls, the product then
  holds these three ratings and its \<open>ratings\<close> is 11/3.
\<close>

theorem ratings_is_mean:
  "(create_new_review isValid env db req = (res, db') \<and> succeeded res \<longrightarrow>
      (\<exists>product. products db' (rq_productId req) = Some product \<and>
         p_reviews product \<noteq> [] \<and>
         p_ratings product = JNumber (mean (map rv_rating (p_reviews product))))) \<and>
   (products db0 pid = Some product0 \<and> p_reviews product0 = [] \<and>
    u1 \<noteq> u2 \<and> u1 \<noteq> u3 \<and> u2 \<noteq> u3 \<and>
    submit_reviews isValid db0
      [(e1, \<lparr>rq_rating = JNumber (Finite 4), rq_comment = c1, rq_productId = pid,
             rq_orderId = o1, rq_user = u1\<rparr>),
       (e2, \<lparr>rq_rating = JNumber (Finite 2), rq_comment = c2, rq_productId = pid,
             rq_orderId = o2, rq_user = u2\<rparr>),
       (e3, \<lparr>rq_rating = JNumber (Finite 5), rq_comment = c3, rq_productId = pid,
             rq_orderId = o3, rq_user = u3\<rparr>)] = (ress, db3) \<and>
    list_all succeeded ress \<longrightarrow>
      (\<exists>product. products db3 pid = Some product \<and>
         map rv_rating (p_reviews product) = [Finite 4, Finite 2, Finite 5] \<and>
         p_ratings product = JNumber (Finite (11 / 3))))"
proof (intro conjI impI)
  assume a: "create_new_review isValid env db req = (res, db') \<and> succeeded res"
  then obtain product rating where
    "products db' (rq_productId req) =
       Some (product\<lparr>p_reviews := upsert_review (rq_user req) rating (rq_comment req)
                                         (rq_productId req) (now env) (p_reviews product),
                     p_ratings := JNumber (average_rating
                              (upsert_review (rq_user req) rating (rq_comment req)
                                         (rq_productId req) (now env) (p_reviews product)))\<rparr>)"
    using review_success by blast
  then show "\<exists>product. products db' (rq_productId req) = Some product \<and>
         p_reviews product \<noteq> [] \<and>
         p_ratings product = JNumber (mean (map rv_rating (p_reviews product)))"
    by (simp add: average_rating_mean upsert_review_not_Nil)
next
  assume "products db0 pid = Some product0 \<and> p_reviews product0 = [] \<and>
    u1 \<noteq> u2 \<and> u1 \<noteq> u3 \<and> u2 \<noteq> u3 \<and>
    submit_reviews isValid db0
      [(e1, \<lparr>rq_rating = JNumber (Finite 4), rq_comment = c1, rq_productId = pid,
             rq_orderId = o1, rq_user = u1\<rparr>),
       (e2, \<lparr>rq_rating = JNumber (Finite 2), rq_comment = c2, rq_productId = pid,
             rq_orderId = o2, rq_user = u2\<rparr>),
       (e3, \<lparr>rq_rating = JNumber (Finite 5), rq_comment = c3, rq_productId = pid,
             rq_orderId = o3, rq_user = u3\<rparr>)] = (ress, db3) \<and>
    list_all succeeded ress"
  then show "\<exists>product. products db3 pid = Some product \<and>
         map rv_rating (p_reviews product) = [Finite 4, Finite 2, Finite 5] \<and>
         p_ratings product = JNumber (Finite (11 / 3))"
    using three_reviewers by blast
qed

lemma ex_three_succeed: "list_all succeeded (fst (submit_reviews hex24 ex_db ex_three))"
  by (simp add: ex_three_def create_new_review_def ex_defs js_gt_def isProductInOrder_def Let_def
        order_set_reviewed_def mark_reviewed_def)

theorem ratings_is_mean_witness:
  "\<exists>product. products (snd (submit_reviews hex24 ex_db ex_three)) (JString ex_pid) = Some product \<and>
     map rv_rating (p_reviews product) = [Finite 4, Finite 2, Finite 5] \<and>
     p_ratings product = JNumber (Finite (11 / 3)) \<and>
     p_ratings product = JNumber (mean (map rv_rating (p_reviews product)))"
proof -
  have run: "submit_reviews hex24 ex_db ex_three =
               (fst (submit_reviews hex24 ex_db ex_three), snd (submit_reviews hex24 ex_db ex_three))"
    by simp
  have "products ex_db (JString ex_pid) = Some ex_product" "p_reviews ex_product = []"
    by (simp_all add: ex_db_def ex_product_def)
  with ratings_is_mean [THEN conjunct2, rule_format, of ex_db "JString ex_pid" ex_product
         "''ann''" "''bob''" "''cat''" hex24] run ex_three_succeed
  obtain product where
    "products (snd (submit_reviews hex24 ex_db ex_three)) (JString ex_pid) = Some product"
    "map rv_rating (p_reviews product) = [Finite 4, Finite 2, Finite 5]"
    "p_ratings product = JNumber (Finite (11 / 3))"
    unfolding ex_three_def ex_req_def by fastforce
  moreover have "mean [Finite 4, Finite 2, Finite 5] = Finite (11 / 3)"
    by (simp add: mean_def)
  ultimately show ?thesis
    by simp
qed

section \<open>One review for each reviewer\<close>

text \<open>
  Claim C2.  Take a product whose list holds at most one review by a reviewer, and any
  non-empty sequence of successful calls of \<^verbatim>\<open>create-new-review\<close> by that reviewer for
  that product.  Afterwards the list holds exactly one review by the reviewer; its
  rating, comment and date are those of the last call; and the list has grown by one
  entry if the reviewer had no review before and not at all otherwise: a later call
  rewrites the review in place.
\<close>

theorem one_review_per_reviewer:
  assumes "calls \<noteq> []"
      and "list_all (\<lambda>call. rq_user (snd call) = u \<and> rq_productId (snd call) = pid) calls"
      and "products db pid = Some product0"
      and "length (filter (by_user u) (p_reviews product0)) \<le> 1"
      and "submit_reviews isValid db calls = (ress, db')"
      and "list_all succeeded ress"
  shows "\<exists>product r. products db' pid = Some product \<and>
           filter (by_user u) (p_reviews product) = [r] \<and>
           rq_rating (snd (last calls)) = JNumber (rv_rating r) \<and>
           rv_comment r = rq_comment (snd (last calls)) \<and>
           rv_createdAt r = now (fst (last calls)) \<and>
           length (p_reviews product) =
             length (p_reviews product0) +
             (if filter (by_user u) (p_reviews product0) = [] then 1 else 0)"
  using assms
proof (induction calls arbitrary: db product0 ress)
  case Nil
  then show ?case by simp
next
  case (Cons call calls)
  obtain env req where call: "call = (env, req)"
    by (cases call)
  from Cons.prems(2) call have req: "rq_user req = u" "rq_productId req = pid"
    by simp_all
  from Cons.prems(5) call obtain res d1 ress' where
    step: "create_new_review isValid env db req = (res, d1)" and
    rest: "submit_reviews isValid d1 calls = (ress', db')" and
    ress: "ress = res # ress'"
    by (auto simp: submit_reviews_Cons simp del: submit_reviews.simps(2))
  from Cons.prems(6) ress have ok: "succeeded res" "list_all succeeded ress'"
    by simp_all
  from review_success [OF step ok(1)] Cons.prems(3) req obtain rating where
    rating: "rq_rating req = JNumber rating"
    by auto
  let ?rs = "upsert_review u rating (rq_comment req) pid (now env) (p_reviews product0)"
  from review_success_reviews [OF step ok(1) _ rating, of product0] Cons.prems(3) req
  obtain p1 where p1: "products d1 pid = Some p1" "p_reviews p1 = ?rs"
    by auto
  from filter_upsert_review [OF Cons.prems(4), of rating "rq_comment req" pid "now env"]
  obtain r where r: "filter (by_user u) ?rs = [r]" "rv_rating r = rating"
      "rv_comment r = rq_comment req" "rv_createdAt r = now env"
    by blast
  have len: "length ?rs = length (p_reviews product0) +
               (if filter (by_user u) (p_reviews product0) = [] then 1 else 0)"
    by (rule length_upsert_review)
  show ?case
  proof (cases "calls = []")
    case True
    with rest have "db' = d1" by simp
    with True p1 r len rating call show ?thesis
      by simp
  next
    case False
    from r(1) p1(2) have one: "length (filter (by_user u) (p_reviews p1)) \<le> 1"
      by simp
    from Cons.prems(2) have "list_all (\<lambda>call. rq_user (snd call) = u \<and> rq_productId (snd call) = pid) calls"
      by simp
    from Cons.IH [OF False this p1(1) one rest ok(2)] obtain product r' where
      "products db' pid = Some product" "filter (by_user u) (p_reviews product) = [r']"
      "rq_rating (snd (last calls)) = JNumber (rv_rating r')"
      "rv_comment r' = rq_comment (snd (last calls))"
      "rv_createdAt r' = now (fst (last calls))"
      "length (p_reviews product) = length (p_reviews p1) +
             (if filter (by_user u) (p_reviews p1) = [] then 1 else 0)"
      by blast
    with False r(1) p1(2) len show ?thesis
      by simp
  qed
qed

lemma ex_twice_succeed: "list_all succeeded (fst (submit_reviews hex24 ex_db ex_twice))"
  by (simp add: ex_twice_def create_new_review_def ex_defs js_gt_def isProductInOrder_def Let_def
        order_set_reviewed_def mark_reviewed_def)

theorem one_review_per_reviewer_witness:
  "\<exists>product r. products (snd (submit_reviews hex24 ex_db ex_twice)) (JString ex_pid) = Some product \<and>
     filter (by_user ''ann'') (p_reviews product) = [r] \<and>
     rv_rating r = Finite 2 \<and> rv_comment r = JString ''poor'' \<and> rv_createdAt r = 2 \<and>
     length (p_reviews product) = 1"
proof -
  have run: "submit_reviews hex24 ex_db ex_twice =
          (fst (submit_reviews hex24 ex_db ex_twice), snd (submit_reviews hex24 ex_db ex_twice))"
    by simp
  have a: "ex_twice \<noteq> []"
    by (simp add: ex_twice_def)
  have b: "list_all (\<lambda>call. rq_user (snd call) = ''ann'' \<and> rq_productId (snd call) = JString ex_pid)
             ex_twice"
    by (simp add: ex_twice_def ex_req_def)
  have c: "products ex_db (JString ex_pid) = Some ex_product"
    by (simp add: ex_db_def)
  have d: "length (filter (by_user ''ann'') (p_reviews ex_product)) \<le> 1"
    by (simp add: ex_product_def)
  have l: "last ex_twice = (ex_env 2, ex_req ''ann'' (JNumber (Finite 2)) (JString ''poor''))"
    by (simp add: ex_twice_def)
  from one_review_per_reviewer [OF a b c d run ex_twice_succeed] obtain product r where
    "products (snd (submit_reviews hex24 ex_db ex_twice)) (JString ex_pid) = Some product"
    "filter (by_user ''ann'') (p_reviews product) = [r]"
    "rq_rating (snd (last ex_twice)) = JNumber (rv_rating r)"
    "rv_comment r = rq_comment (snd (last ex_twice))"
    "rv_createdAt r = now (fst (last ex_twice))"
    "length (p_reviews product) =
       length (p_reviews ex_product) +
       (if filter (by_user ''ann'') (p_reviews ex_product) = [] then 1 else 0)"
    by blast
  then show ?thesis
    by (auto simp: l ex_req_def ex_env_def ex_product_def)
qed


section \<open>The ratings that are stored\<close>

lemma find_assign_first:
  assumes "\<And>x. P x \<Longrightarrow> P (f x)" and "find P xs = Some y"
  shows "find P (assign_first P f xs) = Some (f y)"
  using assms(2)
proof (induction xs)
  case Nil
  then show ?case by simp
next
  case (Cons x xs)
  then show ?case
    by (cases "P x") (simp_all add: assms(1))
qed

lemma find_append_new: "find P xs = None \<Longrightarrow> P x \<Longrightarrow> find P (xs @ [x]) = Some x"
  by (induction xs) (simp_all split: if_splits)

lemma find_upsert_review:
  "\<exists>r. find (by_user u) (upsert_review u n c pid t rs) = Some r \<and>
       rv_rating r = n \<and> rv_comment r = c \<and> rv_createdAt r = t"
proof (cases "find (by_user u) rs")
  case None
  then show ?thesis
    by (simp add: upsert_review_def find_append_new by_user_def)
next
  case (Some y)
  have "find (by_user u)
          (assign_first (by_user u)
             (\<lambda>rv. rv\<lparr>rv_rating := n, rv_comment := c, rv_createdAt := t\<rparr>) rs) =
        Some (y\<lparr>rv_rating := n, rv_comment := c, rv_createdAt := t\<rparr>)"
    using Some by (intro find_assign_first) (simp_all add: by_user_def)
  with Some show ?thesis
    by (simp add: upsert_review_def)
qed

lemma public_success:
  assumes "post_public env db rating comment name = (res, db')" and "res = Json 201 body"
  shows "\<not> rating_rejected rating \<and> truthy rating \<and>
         db' = db\<lparr>publicReviews := (publicReviews db)(new_id env \<mapsto>
               \<lparr>pr_name = name, pr_rating = rating, pr_comment = comment,
                helpfulUp = 0, helpfulDown = 0, pr_createdAt = pe_now env\<rparr>)\<rparr>"
  using assms
  by (auto simp: post_public_def split: if_splits option.splits)

lemma in_1_5_D: "in_1_5 v \<Longrightarrow> \<exists>q. v = JNumber (Finite q) \<and> 1 \<le> q \<and> q \<le> 5"
  by (cases v rule: in_1_5.cases) simp_all


text \<open>
  Claim C8, as the code has it.  The rating that a successful call of
  \<^verbatim>\<open>create-new-review\<close> stores in the reviewer's review is the number of the request,
  and it lies between 1 and 5; it need not be an integer.  The same holds of the rating
  that \<^verbatim>\<open>POST /public\<close> stores.  (\<^verbatim>\<open>NaN\<close> is left aside, as in C3.)
\<close>

theorem stored_rating_in_range:
  "(create_new_review isValid env db req = (res, db') \<and> succeeded res \<and>
    rq_rating req \<noteq> JNumber NaN \<longrightarrow>
      (\<exists>product r q. products db' (rq_productId req) = Some product \<and>
         find (by_user (rq_user req)) (p_reviews product) = Some r \<and>
         rq_rating req = JNumber (rv_rating r) \<and>
         rv_rating r = Finite q \<and> 1 \<le> q \<and> q \<le> 5)) \<and>
   (post_public penv db rating comment name = (res2, db2) \<and> res2 = Json 201 body \<longrightarrow>
      (\<exists>review q. publicReviews db2 (new_id penv) = Some review \<and>
         pr_rating review = rating \<and>
         rating = JNumber (Finite q) \<and> 1 \<le> q \<and> q \<le> 5))"
proof (intro conjI impI)
  assume a: "create_new_review isValid env db req = (res, db') \<and> succeeded res \<and>
    rq_rating req \<noteq> JNumber NaN"
  then obtain product rating where
    p: "rq_rating req = JNumber rating" "\<not> rating_rejected (rq_rating req)"
       "products db' (rq_productId req) =
         Some (product\<lparr>p_reviews := upsert_review (rq_user req) rating (rq_comment req)
                                         (rq_productId req) (now env) (p_reviews product),
                       p_ratings := JNumber (average_rating
                              (upsert_review (rq_user req) rating (rq_comment req)
                                         (rq_productId req) (now env) (p_reviews product)))\<rparr>)"
    using review_success by blast
  from a p(2) have "in_1_5 (rq_rating req)"
    by (simp add: rating_rejected_iff)
  with p(1) obtain q where q: "rating = Finite q" "1 \<le> q" "q \<le> 5"
    by (auto dest: in_1_5_D)
  from find_upsert_review [of "rq_user req" rating "rq_comment req" "rq_productId req" "now env"
      "p_reviews product"]
  obtain r where "find (by_user (rq_user req))
       (upsert_review (rq_user req) rating (rq_comment req) (rq_productId req) (now env)
          (p_reviews product)) = Some r" "rv_rating r = rating"
    by blast
  with p q show "\<exists>product r q. products db' (rq_productId req) = Some product \<and>
         find (by_user (rq_user req)) (p_reviews product) = Some r \<and>
         rq_rating req = JNumber (rv_rating r) \<and>
         rv_rating r = Finite q \<and> 1 \<le> q \<and> q \<le> 5"
    by simp
next
  assume a: "post_public penv db rating comment name = (res2, db2) \<and> res2 = Json 201 body"
  then have s: "\<not> rating_rejected rating" "truthy rating"
       "db2 = db\<lparr>publicReviews := (publicReviews db)(new_id penv \<mapsto>
               \<lparr>pr_name = name, pr_rating = rating, pr_comment = comment,
                helpfulUp = 0, helpfulDown = 0, pr_createdAt = pe_now penv\<rparr>)\<rparr>"
    using public_success [of penv db rating comment name res2 db2 body] by simp_all
  from s(1,2) have "in_1_5 rating"
    by (auto simp: rating_rejected_iff)
  then obtain q where "rating = JNumber (Finite q)" "1 \<le> q" "q \<le> 5"
    by (auto dest: in_1_5_D)
  with s(3) show "\<exists>review q. publicReviews db2 (new_id penv) = Some review \<and>
         pr_rating review = rating \<and>
         rating = JNumber (Finite q) \<and> 1 \<le> q \<and> q \<le> 5"
    by simp
qed


text \<open>The rating 4.5 is accepted and stored, and is no integer.\<close>

theorem non_integer_rating_stored:
  "create_new_review hex24 (ex_env 7) ex_db (ex_req ''ann'' (JNumber (Finite (9 / 2))) (JString ''ok'')) =
     (Json 200 [(''success'', JBoolean True), (''message'', JString ''Reviewed successfully!'')],
      ex_db\<lparr>products := [JString ex_pid \<mapsto>
                ex_product\<lparr>p_reviews := [\<lparr>rv_user = Some ''ann'', rv_rating = Finite (9 / 2),
                                           rv_comment = JString ''ok'', rv_productId = JString ex_pid,
                                           rv_createdAt = 7\<rparr>],
                            p_ratings := JNumber (Finite (9 / 2))\<rparr>],
             orders := [JString ex_oid \<mapsto>
                ex_order\<lparr>o_cart := [None, Some \<lparr>ci_productId = Some ex_pid, ci_isReviewed = True\<rparr>]\<rparr>,
                        JString ex_oid2 \<mapsto> ex_other_order]\<rparr>) \<and>
   \<not> integer_in_1_5 (Finite (9 / 2))"
  by (simp add: create_new_review_def ex_defs js_gt_def isProductInOrder_def Let_def
        order_set_reviewed_def mark_reviewed_def upsert_review_def average_rating_def totalRating_def
        fun_upd_twist)

lemma ex_public_call:
  "post_public ex_penv ex_db (JNumber (Finite (7 / 2))) (JString ''nice'') (JString ''Dan'') =
     (Json 201 [(''success'', JBoolean True), (''message'', JString ''Thank you for your review!'')],
      ex_db\<lparr>publicReviews := (publicReviews ex_db)(JString ex_new \<mapsto>
               \<lparr>pr_name = JString ''Dan'', pr_rating = JNumber (Finite (7 / 2)),
                pr_comment = JString ''nice'', helpfulUp = 0, helpfulDown = 0,
                pr_createdAt = 9\<rparr>)\<rparr>)"
  by (simp add: post_public_def ex_penv_def js_gt_def)

lemma ex_half_succeeds:
  "succeeded (fst (create_new_review hex24 (ex_env 7) ex_db
      (ex_req ''ann'' (JNumber (Finite (9 / 2))) (JString ''ok''))))"
  by (simp add: create_new_review_def ex_defs js_gt_def isProductInOrder_def Let_def)

theorem stored_rating_in_range_witness:
  "(\<exists>product r q.
      products (snd (create_new_review hex24 (ex_env 7) ex_db
                  (ex_req ''ann'' (JNumber (Finite (9 / 2))) (JString ''ok'')))) (JString ex_pid) =
        Some product \<and>
      find (by_user ''ann'') (p_reviews product) = Some r \<and>
      rv_rating r = Finite q \<and> 1 \<le> q \<and> q \<le> 5) \<and>
   (\<exists>review q.
      publicReviews (snd (post_public ex_penv ex_db (JNumber (Finite (7 / 2))) (JString ''nice'')
                       (JString ''Dan''))) (JString ex_new) = Some review \<and>
      pr_rating review = JNumber (Finite q) \<and> 1 \<le> q \<and> q \<le> 5)"
proof -
  let ?req = "ex_req ''ann'' (JNumber (Finite (9 / 2))) (JString ''ok'')"
  let ?run = "create_new_review hex24 (ex_env 7) ex_db ?req"
  have "?run = (fst ?run, snd ?run) \<and> succeeded (fst ?run) \<and> rq_rating ?req \<noteq> JNumber NaN"
    using ex_half_succeeds by (simp add: ex_req_def)
  with stored_rating_in_range [THEN conjunct1, rule_format, of hex24 "ex_env 7" ex_db ?req
         "fst ?run" "snd ?run"]
  have one: "\<exists>product r q. products (snd ?run) (rq_productId ?req) = Some product \<and>
         find (by_user (rq_user ?req)) (p_reviews product) = Some r \<and>
         rq_rating ?req = JNumber (rv_rating r) \<and>
         rv_rating r = Finite q \<and> 1 \<le> q \<and> q \<le> 5"
    by blast
  let ?pub = "post_public ex_penv ex_db (JNumber (Finite (7 / 2))) (JString ''nice'') (JString ''Dan'')"
  have "?pub = (fst ?pub, snd ?pub) \<and>
        fst ?pub = Json 201 [(''success'', JBoolean True),
                             (''message'', JString ''Thank you for your review!'')]"
    by (simp add: ex_public_call)
  with stored_rating_in_range [THEN conjunct2, rule_format, of ex_penv ex_db
         "JNumber (Finite (7 / 2))" "JString ''nice''" "JString ''Dan''" "fst ?pub" "snd ?pub"]
  have two: "\<exists>review q. publicReviews (snd ?pub) (new_id ex_penv) = Some review \<and>
         pr_rating review = JNumber (Finite (7 / 2)) \<and>
         JNumber (Finite (7 / 2)) = JNumber (Finite q) \<and> 1 \<le> q \<and> q \<le> 5"
    by blast
  from one have "\<exists>product r q. products (snd ?run) (JString ex_pid) = Some product \<and>
         find (by_user ''ann'') (p_reviews product) = Some r \<and>
         rv_rating r = Finite q \<and> 1 \<le> q \<and> q \<le> 5"
    unfolding ex_req_def by auto
  moreover from two obtain review where
    "publicReviews (snd ?pub) (JString ex_new) = Some review"
    "pr_rating review = JNumber (Finite (7 / 2))"
    unfolding ex_penv_def by auto
  then have "\<exists>review q. publicReviews (snd ?pub) (JString ex_new) = Some review \<and>
         pr_rating review = JNumber (Finite q) \<and> 1 \<le> q \<and> q \<le> 5"
    by (intro exI [of _ review] exI [of _ "7 / 2"]) simp
  ultimately show ?thesis
    by (simp add: ex_req_def)
qed

section \<open>Votes\<close>

lemma vote_up:
  assumes "truthy reviewId" and "review_cast env reviewId"
      and "review_find_error env = None" and "review_save_error env = None"
      and "publicReviews db reviewId = Some review"
  shows "vote_helpful env db reviewId (JString ''up'') =
           (Json 200 (vote_body (helpfulUp review + 1) (helpfulDown review)),
            db\<lparr>publicReviews := (publicReviews db)(reviewId \<mapsto>
                  review\<lparr>helpfulUp := helpfulUp review + 1\<rparr>)\<rparr>,
            [FindById reviewId, Save reviewId])"
  using assms by (simp add: vote_helpful_def bump_def vote_body_def Let_def)

lemma vote_down:
  assumes "truthy reviewId" and "review_cast env reviewId"
      and "review_find_error env = None" and "review_save_error env = None"
      and "publicReviews db reviewId = Some review"
  shows "vote_helpful env db reviewId (JString ''down'') =
           (Json 200 (vote_body (helpfulUp review) (helpfulDown review + 1)),
            db\<lparr>publicReviews := (publicReviews db)(reviewId \<mapsto>
                  review\<lparr>helpfulDown := helpfulDown review + 1\<rparr>)\<rparr>,
            [FindById reviewId, Save reviewId])"
  using assms by (simp add: vote_helpful_def bump_def vote_body_def Let_def)

lemma vote_not_found:
  assumes "truthy reviewId" and "review_cast env reviewId"
      and "vote = JString ''up'' \<or> vote = JString ''down''"
      and "review_find_error env = None" and "publicReviews db reviewId = None"
  shows "vote_helpful env db reviewId vote = (Next ''Review not found'' 404, db, [FindById reviewId])"
  using assms by (auto simp: vote_helpful_def)

lemma vote_invalid:
  assumes "vote \<noteq> JString ''up''" and "vote \<noteq> JString ''down''"
  shows "vote_helpful env db reviewId vote = (Next ''Invalid vote data'' 400, db, [])"
  using assms by (simp add: vote_helpful_def)

lemma vote_no_identifier:
  assumes "\<not> truthy reviewId"
  shows "vote_helpful env db reviewId vote = (Next ''Invalid vote data'' 400, db, [])"
  using assms by (simp add: vote_helpful_def)

lemma vote_cast_error:
  assumes "truthy reviewId" and "vote = JString ''up'' \<or> vote = JString ''down''"
      and "\<not> review_cast env reviewId"
  shows "vote_helpful env db reviewId vote =
           (Uncaught ''Cast to ObjectId failed'', db, [FindById reviewId])"
  using assms by (auto simp: vote_helpful_def)

lemma vote_up_twice:
  assumes "truthy reviewId" and "review_cast env reviewId"
      and "review_find_error env = None" and "review_save_error env = None"
      and "publicReviews db reviewId = Some review" and "helpfulUp review = 0"
  shows "vote_twice env db reviewId (JString ''up'') =
           (Json 200 (vote_body 2 (helpfulDown review)),
            db\<lparr>publicReviews := (publicReviews db)(reviewId \<mapsto> review\<lparr>helpfulUp := 2\<rparr>)\<rparr>,
            [FindById reviewId, Save reviewId])"
  using assms
  by (simp add: vote_twice_def vote_up [where review = review]
       vote_up [where review = "review\<lparr>helpfulUp := 1\<rparr>"] numeral_2_eq_2)

text \<open>
  Claim C9, as the code has it.  For a review that is stored under an identifier (a
  truthy value that casts to an \<^verbatim>\<open>ObjectId\<close>), when no database call rejects: a vote
  \<^verbatim>\<open>"up"\<close> stores the review with \<open>helpfulUp\<close> one higher and nothing else changed, a vote
  \<^verbatim>\<open>"down"\<close> does the same with \<open>helpfulDown\<close>, and two votes \<^verbatim>\<open>"up"\<close> in sequence on a
  review with \<open>helpfulUp = 0\<close> leave \<open>helpfulUp = 2\<close>.  A vote \<^verbatim>\<open>"up"\<close> or \<^verbatim>\<open>"down"\<close> for
  such an identifier under which no review is stored is answered \<^verbatim>\<open>Review not found\<close>
  with status 404.  Every other direction, and every vote whose identifier is absent or
  empty, is answered \<^verbatim>\<open>Invalid vote data\<close> with status 400, and the database, so both
  counters, is unchanged.
\<close>

theorem vote_counts:
  "(truthy reviewId \<and> review_cast env reviewId \<and>
    review_find_error env = None \<and> review_save_error env = None \<and>
    publicReviews db reviewId = Some review \<longrightarrow>
      vote_helpful env db reviewId (JString ''up'') =
        (Json 200 (vote_body (helpfulUp review + 1) (helpfulDown review)),
         db\<lparr>publicReviews := (publicReviews db)(reviewId \<mapsto>
               review\<lparr>helpfulUp := helpfulUp review + 1\<rparr>)\<rparr>,
         [FindById reviewId, Save reviewId]) \<and>
      vote_helpful env db reviewId (JString ''down'') =
        (Json 200 (vote_body (helpfulUp review) (helpfulDown review + 1)),
         db\<lparr>publicReviews := (publicReviews db)(reviewId \<mapsto>
               review\<lparr>helpfulDown := helpfulDown review + 1\<rparr>)\<rparr>,
         [FindById reviewId, Save reviewId]) \<and>
      (helpfulUp review = 0 \<longrightarrow>
         vote_twice env db reviewId (JString ''up'') =
           (Json 200 (vote_body 2 (helpfulDown review)),
            db\<lparr>publicReviews := (publicReviews db)(reviewId \<mapsto> review\<lparr>helpfulUp := 2\<rparr>)\<rparr>,
            [FindById reviewId, Save reviewId]))) \<and>
   (truthy reviewId \<and> review_cast env reviewId \<and>
    (vote = JString ''up'' \<or> vote = JString ''down'') \<and>
    review_find_error env = None \<and> publicReviews db reviewId = None \<longrightarrow>
      vote_helpful env db reviewId vote =
        (Next ''Review not found'' 404, db, [FindById reviewId])) \<and>
   (vote \<noteq> JString ''up'' \<and> vote \<noteq> JString ''down'' \<longrightarrow>
      vote_helpful env db reviewId vote = (Next ''Invalid vote data'' 400, db, [])) \<and>
   (\<not> truthy reviewId \<longrightarrow>
      vote_helpful env db reviewId vote = (Next ''Invalid vote data'' 400, db, []))"
proof (intro conjI impI; (elim conjE)?)
  assume a: "truthy reviewId" "review_cast env reviewId" "review_find_error env = None"
    "review_save_error env = None" "publicReviews db reviewId = Some review"
  show "vote_helpful env db reviewId (JString ''up'') =
        (Json 200 (vote_body (helpfulUp review + 1) (helpfulDown review)),
         db\<lparr>publicReviews := (publicReviews db)(reviewId \<mapsto>
               review\<lparr>helpfulUp := helpfulUp review + 1\<rparr>)\<rparr>,
         [FindById reviewId, Save reviewId])"
    by (rule vote_up [OF a])
  show "vote_helpful env db reviewId (JString ''down'') =
        (Json 200 (vote_body (helpfulUp review) (helpfulDown review + 1)),
         db\<lparr>publicReviews := (publicReviews db)(reviewId \<mapsto>
               review\<lparr>helpfulDown := helpfulDown review + 1\<rparr>)\<rparr>,
         [FindById reviewId, Save reviewId])"
    by (rule vote_down [OF a])
  show "vote_twice env db reviewId (JString ''up'') =
           (Json 200 (vote_body 2 (helpfulDown review)),
            db\<lparr>publicReviews := (publicReviews db)(reviewId \<mapsto> review\<lparr>helpfulUp := 2\<rparr>)\<rparr>,
            [FindById reviewId, Save reviewId])" if "helpfulUp review = 0"
    by (rule vote_up_twice [OF a that])
next
  assume "truthy reviewId" "review_cast env reviewId"
    "vote = JString ''up'' \<or> vote = JString ''down''"
    "review_find_error env = None" "publicReviews db reviewId = None"
  then show "vote_helpful env db reviewId vote =
        (Next ''Review not found'' 404, db, [FindById reviewId])"
    by (rule vote_not_found)
next
  assume "vote \<noteq> JString ''up''" "vote \<noteq> JString ''down''"
  then show "vote_helpful env db reviewId vote = (Next ''Invalid vote data'' 400, db, [])"
    by (rule vote_invalid)
next
  assume "\<not> truthy reviewId"
  then show "vote_helpful env db reviewId vote = (Next ''Invalid vote data'' 400, db, [])"
    by (rule vote_no_identifier)
qed

text \<open>
  Two identifiers under which no review is stored, and which a request can carry, are
  not answered \<^verbatim>\<open>Review not found\<close>: the empty string is stopped by the first test of
  the handler, which answers \<^verbatim>\<open>Invalid vote data\<close>; and \<^verbatim>\<open>"abc"\<close>, which does not cast to
  an \<^verbatim>\<open>ObjectId\<close>, makes \<^verbatim>\<open>findById\<close> reject, and the error leaves the handler.
\<close>

theorem vote_unresolved_not_404:
  "publicReviews ex_db (JString []) = None \<and>
   vote_helpful ex_venv ex_db (JString []) (JString ''up'') =
     (Next ''Invalid vote data'' 400, ex_db, []) \<and>
   publicReviews ex_db (JString ''abc'') = None \<and>
   vote_helpful ex_venv ex_db (JString ''abc'') (JString ''up'') =
     (Uncaught ''Cast to ObjectId failed'', ex_db, [FindById (JString ''abc'')])"
  by (simp add: vote_helpful_def ex_venv_def ex_db_def ex_rid_def hex24_def)

theorem vote_counts_witness:
  "vote_helpful ex_venv ex_db (JString ex_rid) (JString ''up'') =
     (Json 200 (vote_body 1 0),
      ex_db\<lparr>publicReviews := [JString ex_rid \<mapsto> ex_public_review\<lparr>helpfulUp := 1\<rparr>]\<rparr>,
      [FindById (JString ex_rid), Save (JString ex_rid)]) \<and>
   vote_helpful ex_venv ex_db (JString ex_rid) (JString ''down'') =
     (Json 200 (vote_body 0 1),
      ex_db\<lparr>publicReviews := [JString ex_rid \<mapsto> ex_public_review\<lparr>helpfulDown := 1\<rparr>]\<rparr>,
      [FindById (JString ex_rid), Save (JString ex_rid)]) \<and>
   vote_twice ex_venv ex_db (JString ex_rid) (JString ''up'') =
     (Json 200 (vote_body 2 0),
      ex_db\<lparr>publicReviews := [JString ex_rid \<mapsto> ex_public_review\<lparr>helpfulUp := 2\<rparr>]\<rparr>,
      [FindById (JString ex_rid), Save (JString ex_rid)]) \<and>
   vote_helpful ex_venv ex_db (JString ex_new) (JString ''up'') =
     (Next ''Review not found'' 404, ex_db, [FindById (JString ex_new)]) \<and>
   vote_helpful ex_venv ex_db (JString ex_rid) (JString ''sideways'') =
     (Next ''Invalid vote data'' 400, ex_db, []) \<and>
   vote_helpful ex_venv ex_db JUndefined (JString ''down'') =
     (Next ''Invalid vote data'' 400, ex_db, [])"
  using vote_counts [of "JString ex_rid" ex_venv ex_db ex_public_review "JString ''sideways''"]
        vote_counts [of "JString ex_new" ex_venv ex_db ex_public_review "JString ''up''"]
        vote_counts [of JUndefined ex_venv ex_db ex_public_review "JString ''down''"]
  by (simp add: ex_venv_def ex_db_def ex_public_review_def ex_rid_def ex_new_def hex24_def)

text \<open>
  Claim C10.  A vote whose direction is absent or is anything but \<^verbatim>\<open>"up"\<close> and \<^verbatim>\<open>"down"\<close>
  is answered \<^verbatim>\<open>Invalid vote data\<close> with status 400 whatever the identifier, the database
  and the behaviour of the database calls are: the handler has made no database call
  (its list of calls is empty), so an unknown identifier does not turn the answer into
  \<^verbatim>\<open>Review not found\<close>.
\<close>

theorem invalid_direction_first:
  assumes "vote \<noteq> JString ''up''" and "vote \<noteq> JString ''down''"
  shows "vote_helpful env db reviewId vote = (Next ''Invalid vote data'' 400, db, [])"
  using assms by (simp add: vote_helpful_def)

theorem invalid_direction_first_witness:
  "publicReviews ex_db (JString ex_new) = None \<and>
   vote_helpful ex_venv ex_db (JString ex_new) (JString ''sideways'') =
     (Next ''Invalid vote data'' 400, ex_db, []) \<and>
   vote_helpful ex_venv ex_db (JString ex_new) JUndefined =
     (Next ''Invalid vote data'' 400, ex_db, []) \<and>
   vote_helpful (ex_venv\<lparr>review_find_error := Some ''database is down''\<rparr>) ex_db (JString ex_new)
       (JString ''UP'') =
     (Next ''Invalid vote data'' 400, ex_db, [])"
  using invalid_direction_first [of "JString ''sideways''" ex_venv ex_db "JString ex_new"]
        invalid_direction_first [of JUndefined ex_venv ex_db "JString ex_new"]
        invalid_direction_first [of "JString ''UP''" "ex_venv\<lparr>review_find_error := Some ''database is down''\<rparr>"
           ex_db "JString ex_new"]
  by (simp add: ex_db_def ex_rid_def ex_new_def)

section \<open>Deleting a product or an event\<close>

lemma destroy_attempts_append:
  "destroy_attempts (xs @ ys) = destroy_attempts xs @ destroy_attempts ys"
  by (induction xs rule: destroy_attempts.induct) simp_all

lemma destroy_attempts_images:
  "destroy_attempts (destroy_images rejects label i imgs) = map public_id imgs"
  by (induction imgs arbitrary: i) (simp_all add: destroy_attempts_append)


lemma no_remove_in_destroy_images:
  "RemoveRecord \<notin> set (destroy_images rejects label i imgs)"
  by (induction imgs arbitrary: i) simp_all

text \<open>
  Claim C5.  When the product (or the event) exists and the two database calls of the
  handler resolve, then whichever calls of \<^verbatim>\<open>destroy\<close> reject: the handler has called
  \<^verbatim>\<open>destroy\<close> once for every descriptor of the entity, in order; the record is gone
  from the collection, removed after the last call of \<^verbatim>\<open>destroy\<close>; and the answer is
  the success message with status 200.  The rejections show only as \<^verbatim>\<open>console.error\<close>
  entries among the calls.
\<close>

theorem cascading_delete:
  "(find_error env = None \<and> remove_error env = None \<and> products db param_id = Some product \<longrightarrow>
      (\<exists>calls. delete_shop_product env db param_id =
          (Json 200 [(''success'', JBoolean True),
                     (''message'', JString ''Product deleted successfully!'')],
           db\<lparr>products := (products db)(param_id := None)\<rparr>, calls @ [RemoveRecord]) \<and>
         destroy_attempts calls = map public_id (p_images product) \<and>
         RemoveRecord \<notin> set calls)) \<and>
   (find_error env = None \<and> remove_error env = None \<and> events db param_id = Some event \<longrightarrow>
      (\<exists>calls. delete_shop_event env db param_id =
          (Json 200 [(''success'', JBoolean True),
                     (''message'', JString ''Event deleted successfully!'')],
           db\<lparr>events := (events db)(param_id := None)\<rparr>, calls @ [RemoveRecord]) \<and>
         destroy_attempts calls = map public_id (e_images event) \<and>
         RemoveRecord \<notin> set calls))"
  by (simp add: delete_shop_product_def delete_shop_event_def destroy_attempts_images
        no_remove_in_destroy_images)

theorem cascading_delete_witness:
  "delete_shop_product ex_denv ex_db (JString ex_pid) =
     (Json 200 [(''success'', JBoolean True), (''message'', JString ''Product deleted successfully!'')],
      ex_db\<lparr>products := Map.empty\<rparr>,
      [Destroy (JString ''products/a''),
       Destroy (JString ''products/b''), ConsoleError ''Failed to delete image:'',
       Destroy (JString ''products/c''), RemoveRecord]) \<and>
   delete_shop_event ex_denv ex_db (JString ex_eid) =
     (Json 200 [(''success'', JBoolean True), (''message'', JString ''Event deleted successfully!'')],
      ex_db\<lparr>events := Map.empty\<rparr>,
      [Destroy (JString ''products/a''),
       Destroy (JString ''products/b''), ConsoleError ''Cloudinary deletion error:'',
       Destroy (JString ''products/c''), RemoveRecord])"
proof -
  have p: "find_error ex_denv = None \<and> remove_error ex_denv = None \<and>
        products ex_db (JString ex_pid) = Some ex_product"
    by (simp add: ex_denv_def ex_db_def)
  have e: "find_error ex_denv = None \<and> remove_error ex_denv = None \<and>
        events ex_db (JString ex_eid) = Some ex_event"
    by (simp add: ex_denv_def ex_db_def)
  from cascading_delete [THEN conjunct1, rule_format, OF p]
  obtain calls where c: "delete_shop_product ex_denv ex_db (JString ex_pid) =
          (Json 200 [(''success'', JBoolean True),
                     (''message'', JString ''Product deleted successfully!'')],
           ex_db\<lparr>products := (products ex_db)(JString ex_pid := None)\<rparr>, calls @ [RemoveRecord])"
    by blast
  have "snd (snd (delete_shop_product ex_denv ex_db (JString ex_pid))) =
      [Destroy (JString ''products/a''),
       Destroy (JString ''products/b''), ConsoleError ''Failed to delete image:'',
       Destroy (JString ''products/c''), RemoveRecord]"
    by (simp add: delete_shop_product_def ex_denv_def ex_db_def ex_product_def ex_images_def)
  with c have one: "delete_shop_product ex_denv ex_db (JString ex_pid) =
     (Json 200 [(''success'', JBoolean True), (''message'', JString ''Product deleted successfully!'')],
      ex_db\<lparr>products := Map.empty\<rparr>,
      [Destroy (JString ''products/a''),
       Destroy (JString ''products/b''), ConsoleError ''Failed to delete image:'',
       Destroy (JString ''products/c''), RemoveRecord])"
    by (simp add: ex_db_def)
  from cascading_delete [THEN conjunct2, rule_format, OF e]
  obtain calls' where c': "delete_shop_event ex_denv ex_db (JString ex_eid) =
          (Json 200 [(''success'', JBoolean True),
                     (''message'', JString ''Event deleted successfully!'')],
           ex_db\<lparr>events := (events ex_db)(JString ex_eid := None)\<rparr>, calls' @ [RemoveRecord])"
    by blast
  have "snd (snd (delete_shop_event ex_denv ex_db (JString ex_eid))) =
      [Destroy (JString ''products/a''),
       Destroy (JString ''products/b''), ConsoleError ''Cloudinary deletion error:'',
       Destroy (JString ''products/c''), RemoveRecord]"
    by (simp add: delete_shop_event_def ex_denv_def ex_db_def ex_event_def ex_images_def)
  with c' have two: "delete_shop_event ex_denv ex_db (JString ex_eid) =
     (Json 200 [(''success'', JBoolean True), (''message'', JString ''Event deleted successfully!'')],
      ex_db\<lparr>events := Map.empty\<rparr>,
      [Destroy (JString ''products/a''),
       Destroy (JString ''products/b''), ConsoleError ''Cloudinary deletion error:'',
       Destroy (JString ''products/c''), RemoveRecord])"
    by (simp add: ex_db_def)
  from one two show ?thesis ..
qed


section \<open>Creating a product\<close>

lemma imagesArray_string: "imagesArray (JString s) = [JString s]"
  by (simp add: imagesArray_def)

lemma imagesArray_array: "imagesArray (JArray xs) = xs"
  by (simp add: imagesArray_def)

lemma create_product_images:
  "imagesArray v = imagesArray w \<Longrightarrow>
   create_product env db ((''images'', v) # b) = create_product env db ((''images'', w) # b)"
  by (simp add: create_product_def field_def body_rest_def Let_def
        cong: sum.case_cong option.case_cong bool.case_cong if_cong)

lemma parseMediaArray_unparsed:
  "JSON_parse s = None \<Longrightarrow> parseMediaArray JSON_parse (JString s) = JArray []"
  by (simp add: parseMediaArray_def)

lemma parseMediaArray_array: "parseMediaArray JSON_parse (JArray xs) = JArray xs"
  by (simp add: parseMediaArray_def)

lemma create_product_v2_images:
  "parseMediaArray JSON_parse v = parseMediaArray JSON_parse w \<Longrightarrow>
   create_product_v2 JSON_parse env db ((''images'', v) # b) =
     create_product_v2 JSON_parse env db ((''images'', w) # b)"
  by (simp add: create_product_v2_def field_def body_rest_def Let_def
        cong: sum.case_cong option.case_cong bool.case_cong if_cong)


text \<open>
  Claim C6.  (1) The handler that uploads the images itself turns an images field that
  is a string into the one-element list of that string, and answers as it does for that
  list.  (2) The handler that expects uploaded media turns a string on which
  \<^verbatim>\<open>JSON.parse\<close> throws into the empty list and goes on as it does for the empty list:
  the request is not aborted.
\<close>

theorem media_normalization:
  "imagesArray (JString s) = [JString s] \<and>
   create_product env db ((''images'', JString s) # b) =
     create_product env db ((''images'', JArray [JString s]) # b) \<and>
   (JSON_parse s = None \<longrightarrow>
      parseMediaArray JSON_parse (JString s) = JArray [] \<and>
      create_product_v2 JSON_parse env db ((''images'', JString s) # b) =
        create_product_v2 JSON_parse env db ((''images'', JArray []) # b))"
  by (simp add: imagesArray_string imagesArray_array create_product_images
        parseMediaArray_unparsed parseMediaArray_array create_product_v2_images)

lemma ex_create_bare:
  "create_product ex_cenv ex_db (ex_body (JArray [JString ''http://x/1.png''])) =
     (JsonProduct 201
        \<lparr>p_images = [\<lparr>public_id = JString ''products/new'', url = JString ''http://x/1.png''\<rparr>],
         p_videos = [], p_reviews = [], p_ratings = JUndefined,
         p_fields = [(''location'', JString '' Nairobi ''), (''name'', JString ''Lamp'')]\<rparr>,
      ex_db\<lparr>products := (products ex_db)(JString ex_new \<mapsto>
        \<lparr>p_images = [\<lparr>public_id = JString ''products/new'', url = JString ''http://x/1.png''\<rparr>],
         p_videos = [], p_reviews = [], p_ratings = JUndefined,
         p_fields = [(''location'', JString '' Nairobi ''), (''name'', JString ''Lamp'')]\<rparr>)\<rparr>)"
  by (simp add: create_product_def ex_body_def ex_cenv_def ex_db_def field_def imagesArray_def
        location_missing_def trim_def is_space_def body_rest_def ex_Product_create_def
        media_object_def details_array_def Let_def ex_sid_def)

lemma ex_create_unparsed:
  "create_product_v2 ex_JSON_parse ex_cenv ex_db (ex_body (JArray [])) =
     (JsonProduct 201
        \<lparr>p_images = [], p_videos = [], p_reviews = [], p_ratings = JUndefined,
         p_fields = [(''location'', JString '' Nairobi ''), (''name'', JString ''Lamp'')]\<rparr>,
      ex_db\<lparr>products := (products ex_db)(JString ex_new \<mapsto>
        \<lparr>p_images = [], p_videos = [], p_reviews = [], p_ratings = JUndefined,
         p_fields = [(''location'', JString '' Nairobi ''), (''name'', JString ''Lamp'')]\<rparr>)\<rparr>)"
  by (simp add: create_product_v2_def ex_body_def ex_cenv_def ex_db_def field_def
        location_missing_def trim_def is_space_def body_rest_def ex_Product_create_def
        parseMediaArray_def invalid_media_value_def iterate_def details_array_def Let_def
        ex_sid_def)

theorem media_normalization_witness:
  "imagesArray (JString ''http://x/1.png'') = [JString ''http://x/1.png''] \<and>
   create_product ex_cenv ex_db (ex_body (JString ''http://x/1.png'')) =
     (JsonProduct 201
        \<lparr>p_images = [\<lparr>public_id = JString ''products/new'', url = JString ''http://x/1.png''\<rparr>],
         p_videos = [], p_reviews = [], p_ratings = JUndefined,
         p_fields = [(''location'', JString '' Nairobi ''), (''name'', JString ''Lamp'')]\<rparr>,
      ex_db\<lparr>products := (products ex_db)(JString ex_new \<mapsto>
        \<lparr>p_images = [\<lparr>public_id = JString ''products/new'', url = JString ''http://x/1.png''\<rparr>],
         p_videos = [], p_reviews = [], p_ratings = JUndefined,
         p_fields = [(''location'', JString '' Nairobi ''), (''name'', JString ''Lamp'')]\<rparr>)\<rparr>) \<and>
   parseMediaArray ex_JSON_parse (JString ''{not valid json'') = JArray [] \<and>
   create_product_v2 ex_JSON_parse ex_cenv ex_db (ex_body (JString ''{not valid json'')) =
     (JsonProduct 201
        \<lparr>p_images = [], p_videos = [], p_reviews = [], p_ratings = JUndefined,
         p_fields = [(''location'', JString '' Nairobi ''), (''name'', JString ''Lamp'')]\<rparr>,
      ex_db\<lparr>products := (products ex_db)(JString ex_new \<mapsto>
        \<lparr>p_images = [], p_videos = [], p_reviews = [], p_ratings = JUndefined,
         p_fields = [(''location'', JString '' Nairobi ''), (''name'', JString ''Lamp'')]\<rparr>)\<rparr>)"
proof -
  have "ex_JSON_parse ''{not valid json'' = None"
    by (simp add: ex_JSON_parse_def)
  with media_normalization [of "''http://x/1.png''" ex_cenv ex_db "tl (ex_body JNull)"]
       media_normalization [of "''{not valid json''" ex_cenv ex_db "tl (ex_body JNull)" ex_JSON_parse]
       ex_create_bare ex_create_unparsed
  show ?thesis
    by (simp add: ex_body_def)
qed

lemma upload_images_fails:
  assumes "i < length xs" and "up (k + i) (xs ! i) = None"
  shows "\<exists>uploaded. upload_images up k xs links = Inl uploaded"
  using assms
proof (induction xs arbitrary: i k links)
  case Nil
  then show ?case by simp
next
  case (Cons x xs)
  show ?case
  proof (cases "up k x")
    case None
    then show ?thesis by simp
  next
    case (Some result)
    with Cons.prems have "i \<noteq> 0"
      by (cases i) auto
    then obtain j where j: "i = Suc j"
      by (cases i) auto
    with Cons.prems have "j < length xs" "up (Suc k + j) (xs ! j) = None"
      by simp_all
    from Cons.IH [OF this] Some show ?thesis
      by simp
  qed
qed


text \<open>
  Claim C7.  When, in the handler that uploads the images itself, the upload of one of
  the images rejects, the request creates no product and leaves the database as it was;
  and when the checks before the uploads pass (a location, a shop identifier, the shop
  found) the answer is \<^verbatim>\<open>Image upload failed\<close> with status 500.
\<close>

theorem upload_failure_is_fatal:
  assumes "i < length (imagesArray (field b ''images''))"
      and "upload env i (imagesArray (field b ''images'') ! i) = None"
  shows "snd (create_product env db b) = db \<and>
         \<not> created (fst (create_product env db b)) \<and>
         (location_missing (field b ''location'') = Inr False \<and> truthy (field b ''shopId'') \<and>
          shop_find_error env = None \<and> shops db (field b ''shopId'') \<noteq> None \<longrightarrow>
          fst (create_product env db b) = Next ''Image upload failed'' 500)"
proof -
  from upload_images_fails [of i "imagesArray (field b ''images'')" "upload env" 0 "[]"] assms
  obtain uploaded where
    "upload_images (upload env) 0 (imagesArray (field b ''images'')) [] = Inl uploaded"
    by auto
  then show ?thesis
    by (auto simp: create_product_def Let_def split: sum.splits bool.splits option.splits)
qed

theorem upload_failure_is_fatal_witness:
  "create_product ex_cenv ex_db
     (ex_body (JArray [JString ''data:a'', JString ''data:b'', JString ''data:c''])) =
     (Next ''Image upload failed'' 500, ex_db)"
proof -
  let ?b = "ex_body (JArray [JString ''data:a'', JString ''data:b'', JString ''data:c''])"
  have h1: "1 < length (imagesArray (field ?b ''images''))"
    by (simp add: ex_body_def field_def imagesArray_def)
  have h2: "upload ex_cenv 1 (imagesArray (field ?b ''images'') ! 1) = None"
    by (simp add: ex_cenv_def)
  have g: "location_missing (field ?b ''location'') = Inr False \<and> truthy (field ?b ''shopId'') \<and>
          shop_find_error ex_cenv = None \<and> shops ex_db (field ?b ''shopId'') \<noteq> None"
    by (simp add: ex_body_def field_def location_missing_def trim_def is_space_def ex_sid_def
          ex_cenv_def ex_db_def)
  from upload_failure_is_fatal [OF h1 h2, of ex_db] g
  have "snd (create_product ex_cenv ex_db ?b) = ex_db"
       "fst (create_product ex_cenv ex_db ?b) = Next ''Image upload failed'' 500"
    by blast+
  then show ?thesis
    by (simp add: prod_eq_iff)
qed


end
